theory Spec2Isabelle
  imports Main
begin

section \<open>Python values and exceptions\<close>

text \<open>
  Every exception the modelled Python code can raise is a value of \<open>py_error\<close>; a
  function that may raise returns \<open>py_error + 'a\<close> with \<open>Inl\<close> for the exception.
  \<open>Blocked\<close> stands for a thread that waits forever on a \<open>threading.Lock\<close> that is
  already held.
\<close>

datatype py_error =
    KeyError | IndexError | TypeError | ValueError | OverflowError | RuntimeError
  | ZeroDivisionError | FileNotFoundError | FileExistsError | AttributeError | Blocked

section \<open>lock\_manager.py\<close>

text \<open>
  \<open>LockManager.locks\<close> maps a RID to the list of \<open>(mode, transaction id)\<close> tuples in
  the order they were granted; \<open>lock_owners\<close> maps a transaction id to the list of RIDs
  it was granted a lock on. A transaction id is \<open>None\<close> or an integer; the lock
  manager only compares ids, so their type \<open>'t\<close> is a parameter. The latch is acquired on entry of each public method and
  released on each of its return paths, so it is not part of the state.
\<close>

datatype lock_mode = S | X

record 't LockManager =
  locks :: "int \<rightharpoonup> (lock_mode \<times> 't) list"
  lock_owners :: "'t \<rightharpoonup> int list"

definition LockManager_init :: "'t LockManager" where
  "LockManager_init = \<lparr>locks = Map.empty, lock_owners = Map.empty\<rparr>"

definition add_lock_owner :: "int \<Rightarrow> 't \<Rightarrow> 't LockManager \<Rightarrow> 't LockManager" where
  "add_lock_owner key transaction_id lm =
     (case lock_owners lm transaction_id of
        None \<Rightarrow> lm\<lparr>lock_owners := (lock_owners lm)(transaction_id \<mapsto> [key])\<rparr>
      | Some ks \<Rightarrow> lm\<lparr>lock_owners := (lock_owners lm)(transaction_id \<mapsto> ks @ [key])\<rparr>)"

text \<open>The inner \<open>for l in self.locks[key]\<close> loop of \<open>acquire_shared_lock\<close>.\<close>

datatype shared_scan_result = AlreadyHasLock | RejectShared | GrantShared

fun shared_scan :: "(lock_mode \<times> 't) list \<Rightarrow> 't \<Rightarrow> shared_scan_result" where
  "shared_scan [] transaction_id = GrantShared"
| "shared_scan (l # ls) transaction_id =
     (if snd l = transaction_id then AlreadyHasLock
      else if fst l = X \<and> snd l \<noteq> transaction_id then RejectShared
      else shared_scan ls transaction_id)"

fun acquire_shared_lock :: "int list \<Rightarrow> 't \<Rightarrow> 't LockManager \<Rightarrow> bool \<times> 't LockManager" where
  "acquire_shared_lock [] transaction_id lm = (True, lm)"
| "acquire_shared_lock (key # keys) transaction_id lm =
     (case locks lm key of
        None \<Rightarrow>
          acquire_shared_lock keys transaction_id
            (add_lock_owner key transaction_id
               (lm\<lparr>locks := (locks lm)(key \<mapsto> [(S, transaction_id)])\<rparr>))
      | Some ls \<Rightarrow>
          (case shared_scan ls transaction_id of
             AlreadyHasLock \<Rightarrow> acquire_shared_lock keys transaction_id lm
           | RejectShared \<Rightarrow> (False, lm)
           | GrantShared \<Rightarrow>
               acquire_shared_lock keys transaction_id
                 (add_lock_owner key transaction_id
                    (lm\<lparr>locks := (locks lm)(key \<mapsto> ls @ [(S, transaction_id)])\<rparr>))))"

text \<open>
  The inner \<open>for i, l in enumerate(self.locks[key])\<close> loop of \<open>acquire_exclusive_lock\<close>.
  The loop overwrites entry \<open>i\<close> in place, so the function returns the list as the loop
  leaves it together with the verdict; \<open>n\<close> is \<open>len(self.locks[key])\<close>, which the
  in-place write does not change.
\<close>

fun exclusive_scan ::
  "nat \<Rightarrow> (lock_mode \<times> 't) list \<Rightarrow> 't \<Rightarrow> bool \<times> (lock_mode \<times> 't) list" where
  "exclusive_scan n [] transaction_id = (True, [])"
| "exclusive_scan n (l # ls) transaction_id =
     (if fst l = X \<and> snd l = transaction_id then (True, l # ls)
      else if snd l \<noteq> transaction_id then (False, l # ls)
      else (case exclusive_scan n ls transaction_id of
              (ok, ls') \<Rightarrow>
                (ok, (if fst l = S \<and> snd l = transaction_id \<and> n = 1
                      then (X, transaction_id) else l) # ls')))"

fun acquire_exclusive_lock :: "int list \<Rightarrow> 't \<Rightarrow> 't LockManager \<Rightarrow> bool \<times> 't LockManager" where
  "acquire_exclusive_lock [] transaction_id lm = (True, lm)"
| "acquire_exclusive_lock (key # keys) transaction_id lm =
     (case locks lm key of
        None \<Rightarrow>
          acquire_exclusive_lock keys transaction_id
            (add_lock_owner key transaction_id
               (lm\<lparr>locks := (locks lm)(key \<mapsto> [(X, transaction_id)])\<rparr>))
      | Some ls \<Rightarrow>
          (case exclusive_scan (length ls) ls transaction_id of
             (ok, ls') \<Rightarrow>
               (if ok
                then acquire_exclusive_lock keys transaction_id
                       (lm\<lparr>locks := (locks lm)(key \<mapsto> ls')\<rparr>)
                else (False, lm\<lparr>locks := (locks lm)(key \<mapsto> ls')\<rparr>))))"

text \<open>
  The \<open>while i < len(self.locks[lock])\<close> loop of \<open>release_held_locks\<close>: it pops every
  entry of the transaction and steps over the others.
\<close>

fun remove_owned :: "(lock_mode \<times> 't) list \<Rightarrow> 't \<Rightarrow> (lock_mode \<times> 't) list" where
  "remove_owned [] transaction_id = []"
| "remove_owned (l # ls) transaction_id =
     (if snd l = transaction_id then remove_owned ls transaction_id
      else l # remove_owned ls transaction_id)"

text \<open>The \<open>for lock in self.lock_owners[transaction_id]\<close> loop; \<open>self.locks[lock]\<close>
  raises \<open>KeyError\<close> when the RID has no entry.\<close>

fun release_each ::
  "int list \<Rightarrow> 't \<Rightarrow> (int \<rightharpoonup> (lock_mode \<times> 't) list)
     \<Rightarrow> py_error + (int \<rightharpoonup> (lock_mode \<times> 't) list)" where
  "release_each [] transaction_id lk = Inr lk"
| "release_each (lock # rest) transaction_id lk =
     (case lk lock of
        None \<Rightarrow> Inl KeyError
      | Some ls \<Rightarrow>
          (let ls' = remove_owned ls transaction_id
           in if length ls' = 0
              then release_each rest transaction_id (lk(lock := None))
              else release_each rest transaction_id (lk(lock \<mapsto> ls'))))"

definition release_held_locks :: "'t \<Rightarrow> 't LockManager \<Rightarrow> py_error + 't LockManager" where
  "release_held_locks transaction_id lm =
     (case lock_owners lm transaction_id of
        None \<Rightarrow> Inr lm
      | Some owned \<Rightarrow>
          (case release_each owned transaction_id (locks lm) of
             Inl e \<Rightarrow> Inl e
           | Inr lk \<Rightarrow>
               Inr (lm\<lparr>locks := lk,
                        lock_owners := (lock_owners lm)(transaction_id := None)\<rparr>)))"

text \<open>The lock tables the three methods can produce from an empty lock manager.\<close>

inductive lm_reachable :: "'t LockManager \<Rightarrow> bool" where
  lm_init: "lm_reachable LockManager_init"
| lm_shared: "lm_reachable lm \<Longrightarrow> lm_reachable (snd (acquire_shared_lock keys t lm))"
| lm_exclusive: "lm_reachable lm \<Longrightarrow> lm_reachable (snd (acquire_exclusive_lock keys t lm))"
| lm_release: "lm_reachable lm \<Longrightarrow> release_held_locks t lm = Inr lm' \<Longrightarrow> lm_reachable lm'"

text \<open>
  The shape every reachable lock table has: a RID's list is never empty, holds at most
  one entry per transaction, and is either all shared or a single exclusive entry; the
  owners map lists, without repetition, exactly the RIDs a transaction has an entry on.
\<close>

definition locks_ok :: "(lock_mode \<times> 't) list \<Rightarrow> bool" where
  "locks_ok ls \<longleftrightarrow>
     ls \<noteq> [] \<and> distinct (map snd ls) \<and>
     ((\<forall>l \<in> set ls. fst l = S) \<or> (\<exists>t. ls = [(X, t)]))"

definition owned_rids :: "'t LockManager \<Rightarrow> 't \<Rightarrow> int set" where
  "owned_rids lm t = {k. \<exists>ls. locks lm k = Some ls \<and> t \<in> snd ` set ls}"

definition lm_inv :: "'t LockManager \<Rightarrow> bool" where
  "lm_inv lm \<longleftrightarrow>
     (\<forall>k ls. locks lm k = Some ls \<longrightarrow> locks_ok ls) \<and>
     (\<forall>t. case lock_owners lm t of
             None \<Rightarrow> owned_rids lm t = {}
           | Some ks \<Rightarrow> distinct ks \<and> set ks = owned_rids lm t)"

text \<open>The verdict of the exclusive request on one RID, read off the lock table.\<close>

definition only_held_by :: "'t LockManager \<Rightarrow> 't \<Rightarrow> int \<Rightarrow> bool" where
  "only_held_by lm transaction_id k \<longleftrightarrow>
     (case locks lm k of None \<Rightarrow> True | Some ls \<Rightarrow> list_all (\<lambda>l. snd l = transaction_id) ls)"

text \<open>What \<open>release_held_locks\<close> leaves of one RID's entry: the list without the
  transaction's tuples, and no entry at all when that list is empty.\<close>

definition drop_owner ::
  "'t \<Rightarrow> (lock_mode \<times> 't) list option \<Rightarrow> (lock_mode \<times> 't) list option" where
  "drop_owner t v =
     (case v of None \<Rightarrow> None
      | Some ls \<Rightarrow> (if remove_owned ls t = [] then None else Some (remove_owned ls t)))"

text \<open>A small lock table: transaction 8 reads RID 2, then transaction 7 reads RIDs 1 and 2.\<close>

definition lm_example :: "int LockManager" where
  "lm_example =
     snd (acquire_shared_lock [1, 2] 7 (snd (acquire_shared_lock [2] 8 LockManager_init)))"

section \<open>config.py\<close>

text \<open>
  \<open>lstore/config.py\<close> is not part of the sources at hand. The sizes and thresholds
  whose values nothing fixes are the fields of \<open>Config\<close>, a parameter of every function
  that reads one of them.
\<close>

record Config =
  PAGE_SIZE :: nat
  COLUMN_SIZE :: nat
  BUFFERPOOL_SIZE :: nat
  MERGE_CONDITION :: int
  CREATE_INDICES_CONDITION :: int
  INDIRECTION_NULL :: int

text \<open>
  Modelled from the spec: the constants of \<open>config.py\<close> that the specification fixes.
  \<open>MAX_BASE_PAGES\<close> is 16 and \<open>NUM_METADATA_COLS\<close> is 4; the four metadata columns
  are indirection, RID, timestamp and schema encoding in this order (the order of
  \<open>Record.to_array\<close>, and the one \<open>get_record\<close> relies on when it reads
  \<open>metadata[RID_COLUMN]\<close>); the data columns start at 4 (\<open>Page.write\<close> enumerates them
  from 4). The physical-page header is \<open>num_records\<close>, \<open>tps\<close>, \<open>num_updates\<close>, each
  \<open>COLUMN_SIZE\<close> bytes, and the body starts at byte \<open>3 * COLUMN_SIZE\<close>.
\<close>

definition MAX_BASE_PAGES :: int where "MAX_BASE_PAGES = 16"
definition NUM_METADATA_COLS :: int where "NUM_METADATA_COLS = 4"
definition DATA_COL_START :: int where "DATA_COL_START = 4"
definition INDIRECTION_COLUMN :: int where "INDIRECTION_COLUMN = 0"
definition RID_COLUMN :: int where "RID_COLUMN = 1"
definition TIMESTAMP_COLUMN :: int where "TIMESTAMP_COLUMN = 2"
definition SCHEMA_ENCODING_COLUMN :: int where "SCHEMA_ENCODING_COLUMN = 3"

definition NUM_RECORDS_START :: "Config \<Rightarrow> int" where "NUM_RECORDS_START cfg = 0"
definition NUM_RECORDS_END :: "Config \<Rightarrow> int" where "NUM_RECORDS_END cfg = int (COLUMN_SIZE cfg)"
definition TPS_START :: "Config \<Rightarrow> int" where "TPS_START cfg = int (COLUMN_SIZE cfg)"
definition TPS_END :: "Config \<Rightarrow> int" where "TPS_END cfg = 2 * int (COLUMN_SIZE cfg)"
definition NUM_UPDATES_START :: "Config \<Rightarrow> int" where
  "NUM_UPDATES_START cfg = 2 * int (COLUMN_SIZE cfg)"
definition NUM_UPDATES_END :: "Config \<Rightarrow> int" where
  "NUM_UPDATES_END cfg = 3 * int (COLUMN_SIZE cfg)"
definition PHYSICAL_PAGE_METADATA_SIZE :: "Config \<Rightarrow> int" where
  "PHYSICAL_PAGE_METADATA_SIZE cfg = 3 * int (COLUMN_SIZE cfg)"

section \<open>Python built-ins the code relies on\<close>

text \<open>Sequencing of calls that may raise.\<close>

definition bind_err :: "py_error + 'a \<Rightarrow> ('a \<Rightarrow> py_error + 'b) \<Rightarrow> py_error + 'b" where
  "bind_err m f = (case m of Inl e \<Rightarrow> Inl e | Inr x \<Rightarrow> f x)"

text \<open>
  A \<open>bytearray\<close> is a list of bytes, each a natural number below 256.
  \<open>int.to_bytes(n, "big", signed=True)\<close> raises \<open>OverflowError\<close> outside the
  two's-complement range of \<open>n\<close> bytes, \<open>int.to_bytes(n, "big")\<close> outside
  \<open>0 \<dots> 256^n - 1\<close>; \<open>int.from_bytes(b, "big", signed=True)\<close> is 0 on the empty
  byte string.
\<close>

fun be_bytes :: "nat \<Rightarrow> nat \<Rightarrow> nat list" where
  "be_bytes 0 v = []"
| "be_bytes (Suc n) v = be_bytes n (v div 256) @ [v mod 256]"

definition to_bytes_signed :: "nat \<Rightarrow> int \<Rightarrow> py_error + nat list" where
  "to_bytes_signed n v =
     (if - (256 ^ n) \<le> 2 * v \<and> 2 * v < 256 ^ n
      then Inr (be_bytes n (nat (v mod 256 ^ n)))
      else Inl OverflowError)"

definition to_bytes_unsigned :: "nat \<Rightarrow> int \<Rightarrow> py_error + nat list" where
  "to_bytes_unsigned n v =
     (if 0 \<le> v \<and> v < 256 ^ n then Inr (be_bytes n (nat v)) else Inl OverflowError)"

definition be_nat :: "nat list \<Rightarrow> nat" where
  "be_nat bs = foldl (\<lambda>a b. a * 256 + b) 0 bs"

definition from_bytes_signed :: "nat list \<Rightarrow> int" where
  "from_bytes_signed bs =
     (if 256 ^ length bs \<le> 2 * int (be_nat bs) \<and> bs \<noteq> []
      then int (be_nat bs) - 256 ^ length bs
      else int (be_nat bs))"

text \<open>
  Slices \<open>b[start:end]\<close> with Python's clamping of the two bounds: a negative bound
  counts from the end, a bound past the end is the end. Assigning to a slice replaces
  the bytes between the bounds by the new ones, whatever their number.
\<close>

definition slice_index :: "nat \<Rightarrow> int \<Rightarrow> nat" where
  "slice_index len i = (if i < 0 then nat (max 0 (int len + i)) else min len (nat i))"

definition py_slice :: "'a list \<Rightarrow> int \<Rightarrow> int \<Rightarrow> 'a list" where
  "py_slice xs start end =
     (let s = slice_index (length xs) start; e = slice_index (length xs) end
      in take (e - s) (drop s xs))"

definition py_slice_assign :: "'a list \<Rightarrow> int \<Rightarrow> int \<Rightarrow> 'a list \<Rightarrow> 'a list" where
  "py_slice_assign xs start end ys =
     (let s = slice_index (length xs) start; e = max s (slice_index (length xs) end)
      in take s xs @ ys @ drop e xs)"

text \<open>
  A \<open>threading.Lock\<close> is its state, held or not. \<open>acquire()\<close> on a held lock never
  returns when no other thread releases it; \<open>release()\<close> on a lock that is not held
  raises \<open>RuntimeError\<close>.
\<close>

definition lock_acquire :: "bool \<Rightarrow> py_error + bool" where
  "lock_acquire held = (if held then Inl Blocked else Inr True)"

definition lock_release :: "bool \<Rightarrow> py_error + bool" where
  "lock_release held = (if held then Inr False else Inl RuntimeError)"

text \<open>List indexing \<open>xs[i]\<close> with a non-negative index, \<open>IndexError\<close> past the end;
  and with any index, negative ones counting from the end.\<close>

definition py_index :: "'a list \<Rightarrow> int \<Rightarrow> py_error + 'a" where
  "py_index xs i =
     (let j = (if i < 0 then int (length xs) + i else i)
      in if 0 \<le> j \<and> j < int (length xs) then Inr (xs ! nat j) else Inl IndexError)"

section \<open>page.py: PhysicalPage\<close>

record PhysicalPage =
  num_records :: int
  tps :: int
  num_updates :: int
  data :: "nat list"
  is_dirty :: bool
  pin_count :: int
  lock :: bool
  num_records_lock :: bool

definition PhysicalPage_init :: "Config \<Rightarrow> PhysicalPage" where
  "PhysicalPage_init cfg =
     \<lparr>num_records = 0, tps = 0, num_updates = 0, data = replicate (PAGE_SIZE cfg) 0,
      is_dirty = False, pin_count = 0, lock = False, num_records_lock = False\<rparr>"

text \<open>\<open>(PAGE_SIZE - PHYSICAL_PAGE_METADATA_SIZE) // COLUMN_SIZE\<close>.\<close>

definition max_records :: "Config \<Rightarrow> py_error + int" where
  "max_records cfg =
     (if COLUMN_SIZE cfg = 0 then Inl ZeroDivisionError
      else Inr ((int (PAGE_SIZE cfg) - PHYSICAL_PAGE_METADATA_SIZE cfg) div int (COLUMN_SIZE cfg)))"

text \<open>
  \<open>use_num_records\<close> returns \<open>False\<close> on a full page; its one caller,
  \<open>Page.create_copy\<close>, stores the result as a record count, where \<open>False\<close> is the
  integer 0.
\<close>

definition PhysicalPage_use_num_records ::
  "Config \<Rightarrow> string \<Rightarrow> PhysicalPage \<Rightarrow> py_error + (int \<times> PhysicalPage)" where
  "PhysicalPage_use_num_records cfg operation p =
     (if num_records_lock p then Inl Blocked
      else bind_err (max_records cfg) (\<lambda>m.
        if num_records p \<ge> m then Inr (0, p)
        else if operation = ''p'' then Inr (num_records p, p\<lparr>num_records := num_records p + 1\<rparr>)
        else if operation = ''w'' then
          Inr (num_records p + 1, p\<lparr>num_records := num_records p + 1\<rparr>)
        else if operation = ''r'' then Inr (num_records p, p)
        else Inr (-1, p)))"

definition PhysicalPage_get_dirty_bit :: "PhysicalPage \<Rightarrow> py_error + bool" where
  "PhysicalPage_get_dirty_bit p = (if lock p then Inl Blocked else Inr (is_dirty p))"

text \<open>\<open>use_pin_count\<close> returns \<open>None\<close> for an operation other than r, i, d.\<close>

definition PhysicalPage_use_pin_count ::
  "string \<Rightarrow> PhysicalPage \<Rightarrow> py_error + (int option \<times> PhysicalPage)" where
  "PhysicalPage_use_pin_count operation p =
     (if lock p then Inl Blocked
      else if operation = ''r'' then Inr (Some (pin_count p), p)
      else if operation = ''i'' then Inr (Some (pin_count p + 1), p\<lparr>pin_count := pin_count p + 1\<rparr>)
      else if operation = ''d'' then Inr (Some (pin_count p - 1), p\<lparr>pin_count := pin_count p - 1\<rparr>)
      else Inr (None, p))"

definition PhysicalPage_get_tps :: "PhysicalPage \<Rightarrow> py_error + int" where
  "PhysicalPage_get_tps p = (if lock p then Inl Blocked else Inr (tps p))"

definition PhysicalPage_get_num_updates :: "PhysicalPage \<Rightarrow> py_error + int" where
  "PhysicalPage_get_num_updates p = (if lock p then Inl Blocked else Inr (num_updates p))"

definition PhysicalPage_get_data :: "PhysicalPage \<Rightarrow> py_error + nat list" where
  "PhysicalPage_get_data p = (if lock p then Inl Blocked else Inr (data p))"

definition PhysicalPage_has_capacity :: "Config \<Rightarrow> PhysicalPage \<Rightarrow> py_error + bool" where
  "PhysicalPage_has_capacity cfg p =
     (if lock p then Inl Blocked
      else bind_err (max_records cfg) (\<lambda>m. Inr (num_records p < m)))"

text \<open>
  \<open>write\<close> returns \<open>False\<close> (here \<open>None\<close>) or the offset it wrote to. It never
  acquires \<open>self.lock\<close>, and releases it on the out-of-range path.
\<close>

definition PhysicalPage_write ::
  "Config \<Rightarrow> int \<Rightarrow> int \<Rightarrow> PhysicalPage \<Rightarrow> py_error + (int option \<times> PhysicalPage)" where
  "PhysicalPage_write cfg val offset p =
     bind_err (max_records cfg) (\<lambda>m.
       if offset \<ge> m
       then bind_err (lock_release (lock p)) (\<lambda>l. Inr (None, p\<lparr>lock := l\<rparr>))
       else
         (let start = int (COLUMN_SIZE cfg) * offset + PHYSICAL_PAGE_METADATA_SIZE cfg;
              end = int (COLUMN_SIZE cfg) * (offset + 1) + PHYSICAL_PAGE_METADATA_SIZE cfg
          in bind_err (to_bytes_signed (COLUMN_SIZE cfg) val) (\<lambda>b.
             bind_err (to_bytes_signed (COLUMN_SIZE cfg) (num_records p)) (\<lambda>bn.
             bind_err (to_bytes_signed (COLUMN_SIZE cfg) (tps p)) (\<lambda>bt.
             bind_err (to_bytes_signed (COLUMN_SIZE cfg) (num_updates p)) (\<lambda>bu.
               Inr (Some offset,
                    p\<lparr>data :=
                        py_slice_assign
                          (py_slice_assign
                             (py_slice_assign
                                (py_slice_assign (data p) start end b)
                                (NUM_RECORDS_START cfg) (NUM_RECORDS_END cfg) bn)
                             (TPS_START cfg) (TPS_END cfg) bt)
                          (NUM_UPDATES_START cfg) (NUM_UPDATES_END cfg) bu,
                      is_dirty := True\<rparr>)))))))"

definition PhysicalPage_read_val :: "Config \<Rightarrow> int \<Rightarrow> PhysicalPage \<Rightarrow> py_error + int" where
  "PhysicalPage_read_val cfg offset p =
     (if lock p then Inl Blocked
      else
        (let start = int (COLUMN_SIZE cfg) * offset + PHYSICAL_PAGE_METADATA_SIZE cfg;
             end = int (COLUMN_SIZE cfg) * (offset + 1) + PHYSICAL_PAGE_METADATA_SIZE cfg
         in Inr (from_bytes_signed (py_slice (data p) start end))))"

definition PhysicalPage_change_val ::
  "Config \<Rightarrow> int \<Rightarrow> int \<Rightarrow> PhysicalPage \<Rightarrow> py_error + PhysicalPage" where
  "PhysicalPage_change_val cfg new_val offset p =
     (if lock p then Inl Blocked
      else
        (let start = int (COLUMN_SIZE cfg) * offset + PHYSICAL_PAGE_METADATA_SIZE cfg;
             end = int (COLUMN_SIZE cfg) * (offset + 1) + PHYSICAL_PAGE_METADATA_SIZE cfg
         in case to_bytes_signed (COLUMN_SIZE cfg) new_val of
              Inl e \<Rightarrow> Inl e
            | Inr b \<Rightarrow> Inr (p\<lparr>data := py_slice_assign (data p) start end b\<rparr>)))"

text \<open>The slot at one offset, as the three readers of the code decode it.\<close>

definition slot_val :: "Config \<Rightarrow> nat list \<Rightarrow> int \<Rightarrow> int" where
  "slot_val cfg d offset =
     from_bytes_signed
       (py_slice d (int (COLUMN_SIZE cfg) * offset + PHYSICAL_PAGE_METADATA_SIZE cfg)
                   (int (COLUMN_SIZE cfg) * (offset + 1) + PHYSICAL_PAGE_METADATA_SIZE cfg))"

text \<open>\<open>data_to_int_array\<close>: \<open>range(self.num_records)\<close> is empty for a count below 1.\<close>

definition PhysicalPage_data_to_int_array ::
  "Config \<Rightarrow> PhysicalPage \<Rightarrow> py_error + int list" where
  "PhysicalPage_data_to_int_array cfg p =
     (if lock p then Inl Blocked
      else Inr (map (\<lambda>i. slot_val cfg (data p) (int i)) [0 ..< nat (num_records p)]))"

text \<open>Two configurations used in examples: 4096-byte pages of 8-byte columns, and
  5-byte pages of 1-byte columns, which hold two values each.\<close>

definition cfg_4096 :: Config where
  "cfg_4096 = \<lparr>PAGE_SIZE = 4096, COLUMN_SIZE = 8, BUFFERPOOL_SIZE = 1000,
                MERGE_CONDITION = 100, CREATE_INDICES_CONDITION = 1000,
                INDIRECTION_NULL = -1\<rparr>"

definition cfg_tiny :: Config where
  "cfg_tiny = \<lparr>PAGE_SIZE = 5, COLUMN_SIZE = 1, BUFFERPOOL_SIZE = 100,
                MERGE_CONDITION = 100, CREATE_INDICES_CONDITION = 10,
                INDIRECTION_NULL = -1\<rparr>"

section \<open>The objects of one database\<close>

text \<open>
  Python dictionaries whose length or key order the code reads are association lists
  with one entry per key, in insertion order: assigning to a present key keeps its
  place, assigning to a new key appends.
\<close>

fun dict_set :: "('k \<times> 'v) list \<Rightarrow> 'k \<Rightarrow> 'v \<Rightarrow> ('k \<times> 'v) list" where
  "dict_set [] k v = [(k, v)]"
| "dict_set (e # es) k v = (if fst e = k then (k, v) # es else e # dict_set es k v)"

fun dict_pop :: "('k \<times> 'v) list \<Rightarrow> 'k \<Rightarrow> ('k \<times> 'v) list" where
  "dict_pop [] k = []"
| "dict_pop (e # es) k = (if fst e = k then es else e # dict_pop es k)"

text \<open>\<open>range(n)\<close> and \<open>range(a, b)\<close>.\<close>

definition py_range :: "int \<Rightarrow> int list" where
  "py_range n = [0 .. n - 1]"

definition py_range2 :: "int \<Rightarrow> int \<Rightarrow> int list" where
  "py_range2 a b = [a .. b - 1]"

text \<open>A \<open>for\<close> loop over a list whose body may raise and changes the state: one that
  collects a result per element, and one that only changes the state.\<close>

fun for_collect ::
  "('a \<Rightarrow> 's \<Rightarrow> py_error + ('b \<times> 's)) \<Rightarrow> 'a list \<Rightarrow> 's \<Rightarrow> py_error + ('b list \<times> 's)" where
  "for_collect f [] s = Inr ([], s)"
| "for_collect f (x # xs) s =
     (case f x s of
        Inl e \<Rightarrow> Inl e
      | Inr (y, s') \<Rightarrow>
          (case for_collect f xs s' of
             Inl e \<Rightarrow> Inl e
           | Inr (ys, s'') \<Rightarrow> Inr (y # ys, s'')))"

fun for_each :: "('a \<Rightarrow> 's \<Rightarrow> py_error + 's) \<Rightarrow> 'a list \<Rightarrow> 's \<Rightarrow> py_error + 's" where
  "for_each f [] s = Inr s"
| "for_each f (x # xs) s = (case f x s of Inl e \<Rightarrow> Inl e | Inr s' \<Rightarrow> for_each f xs s')"

text \<open>
  A physical page lives on disk in the file
  \<open><root>/<table>/page_range<K>/page<P>/col<C>\<close>; one database root and one table are
  fixed, so the path of a physical page is the triple \<open>(K, P, C)\<close>, which the string
  determines and is determined by. A merge renames the column file to
  \<open>old_col<C>_<tps>\<close> in the same folder.
\<close>

type_synonym path = "int \<times> int \<times> int"

datatype file_key = ColFile int int int | OldColFile int int int int

text \<open>\<open>record.py\<close>. A new record's \<open>schema_encoding\<close> is \<open>bytearray(len(columns))\<close>,
  which \<open>Page.write\<close> stores as the integer 0; a record read back carries the integer
  of the schema-encoding column. \<open>timestamp\<close> holds \<open>int(time())\<close>, the value
  \<open>Page.write\<close> stores; \<open>rec_key\<close> is the attribute \<open>key\<close>.\<close>

record Record =
  indirection :: int
  rid :: int
  timestamp :: int
  schema_encoding :: int
  rec_key :: int
  columns :: "int list"

text \<open>\<open>bufferpool.py\<close>. The pool maps a path to a \<open>PhysicalPage\<close> object; objects
  are addresses into the heap of the database state, since the code keeps references to
  pages in local variables while the pool changes.\<close>

record Bufferpool =
  pages :: "(path \<times> nat) list"
  max_capacity :: nat
  lru_pages :: "path list"
  evict_lock :: bool
  page_locks :: "path \<rightharpoonup> bool"

text \<open>\<open>table.py\<close> and \<open>index.py\<close>. \<open>indices\<close> is \<open>Index.indices\<close>: per column
  \<open>None\<close> or the dictionary from a value to the list of base RIDs. The remaining
  mutexes of the table, the index and the query object are taken and released again on
  every path of the method that takes them, and a call that raises ends the run, so they
  carry no state.\<close>

record Table =
  table_key :: int
  num_columns :: int
  total_num_columns :: int
  page_directory :: "int \<rightharpoonup> (int \<times> int \<times> int)"
  num_page_ranges :: int
  page_ranges_metadata :: "(int \<times> int \<times> int) list"
  indices :: "(int \<times> int list) list option list"
  table_num_records :: int
  merge_queue :: "(int \<times> int) list"
  merge_submitted :: nat
  lock_manager :: "int option LockManager"
  num_transactions :: int

text \<open>
  The state of a run: the heap of page objects, the files and folders under the table's
  folder, the pool, the table, and the readings \<open>int(time())\<close> will give, of which
  \<open>time_calls\<close> have been used. \<open>merge_submitted\<close> counts the merge jobs handed to a
  thread pool; the model runs none of them by itself.
\<close>

record Database =
  heap :: "PhysicalPage list"
  files :: "file_key \<rightharpoonup> nat list"
  page_range_dirs :: "int set"
  page_dirs :: "(int \<times> int) set"
  bufferpool :: Bufferpool
  table :: Table
  time_source :: "nat \<Rightarrow> int"
  time_calls :: nat

definition Bufferpool_init :: "Config \<Rightarrow> Bufferpool" where
  "Bufferpool_init cfg =
     \<lparr>pages = [], max_capacity = BUFFERPOOL_SIZE cfg, lru_pages = [], evict_lock = False,
      page_locks = Map.empty\<rparr>"

definition Table_init :: "int \<Rightarrow> int \<Rightarrow> Table" where
  "Table_init num_cols key_index =
     \<lparr>table_key = key_index, num_columns = num_cols,
      total_num_columns = num_cols + NUM_METADATA_COLS,
      page_directory = Map.empty, num_page_ranges = 0, page_ranges_metadata = [],
      indices = replicate (nat (num_cols + NUM_METADATA_COLS)) None,
      table_num_records = 0, merge_queue = [], merge_submitted = 0,
      lock_manager = LockManager_init, num_transactions = 0\<rparr>"

text \<open>A database opened on an empty folder with one table created.\<close>

definition Database_init :: "Config \<Rightarrow> int \<Rightarrow> int \<Rightarrow> (nat \<Rightarrow> int) \<Rightarrow> Database" where
  "Database_init cfg num_cols key_index tm =
     \<lparr>heap = [], files = Map.empty, page_range_dirs = {}, page_dirs = {},
      bufferpool = Bufferpool_init cfg, table = Table_init num_cols key_index,
      time_source = tm, time_calls = 0\<rparr>"

text \<open>Reading and updating the page object at an address.\<close>

definition heap_upd :: "nat \<Rightarrow> (PhysicalPage \<Rightarrow> PhysicalPage) \<Rightarrow> Database \<Rightarrow> Database" where
  "heap_upd a f db = db\<lparr>heap := (heap db)[a := f (heap db ! a)]\<rparr>"

definition heap_alloc :: "PhysicalPage \<Rightarrow> Database \<Rightarrow> nat \<times> Database" where
  "heap_alloc p db = (length (heap db), db\<lparr>heap := heap db @ [p]\<rparr>)"

text \<open>\<open>Record(rid, key, columns)\<close>: the constructor reads the clock.\<close>

definition Record_new :: "int \<Rightarrow> int \<Rightarrow> int list \<Rightarrow> Database \<Rightarrow> Config \<Rightarrow> Record \<times> Database" where
  "Record_new r k cols db cfg =
     (\<lparr>indirection = INDIRECTION_NULL cfg, rid = r,
       timestamp = time_source db (time_calls db), schema_encoding = 0, rec_key = k,
       columns = cols\<rparr>,
      db\<lparr>time_calls := time_calls db + 1\<rparr>)"

section \<open>table.py: the accessors the buffer pool calls\<close>

text \<open>\<open>use_num_records\<close>, \<open>use_num_transactions\<close> and \<open>use_num_page_ranges\<close>
  return -1 for an operation they do not know.\<close>

definition Table_use_num_records :: "string \<Rightarrow> Database \<Rightarrow> int \<times> Database" where
  "Table_use_num_records operation db =
     (let t = table db in
      if operation = ''p''
      then (table_num_records t, db\<lparr>table := t\<lparr>table_num_records := table_num_records t + 1\<rparr>\<rparr>)
      else if operation = ''w''
      then (table_num_records t + 1,
            db\<lparr>table := t\<lparr>table_num_records := table_num_records t + 1\<rparr>\<rparr>)
      else if operation = ''r'' then (table_num_records t, db)
      else (-1, db))"

definition Table_use_num_transactions :: "string \<Rightarrow> Database \<Rightarrow> int \<times> Database" where
  "Table_use_num_transactions operation db =
     (let t = table db in
      if operation = ''w''
      then (num_transactions t + 1, db\<lparr>table := t\<lparr>num_transactions := num_transactions t + 1\<rparr>\<rparr>)
      else if operation = ''r'' then (num_transactions t, db)
      else (-1, db))"

definition Table_use_num_page_ranges :: "string \<Rightarrow> Database \<Rightarrow> int \<times> Database" where
  "Table_use_num_page_ranges operation db =
     (let t = table db in
      if operation = ''w''
      then (num_page_ranges t + 1, db\<lparr>table := t\<lparr>num_page_ranges := num_page_ranges t + 1\<rparr>\<rparr>)
      else if operation = ''r'' then (num_page_ranges t, db)
      else (-1, db))"

text \<open>\<open>use_page_directory\<close> with operation r (\<open>None\<close> stands for the -1 of an absent
  key), w and d (\<open>dict.pop\<close> raises \<open>KeyError\<close> on an absent key).\<close>

definition Table_use_page_directory_r :: "int \<Rightarrow> Database \<Rightarrow> (int \<times> int \<times> int) option" where
  "Table_use_page_directory_r k db = page_directory (table db) k"

definition Table_use_page_directory_w :: "int \<Rightarrow> int \<times> int \<times> int \<Rightarrow> Database \<Rightarrow> Database" where
  "Table_use_page_directory_w k v db =
     db\<lparr>table := (table db)\<lparr>page_directory := (page_directory (table db))(k \<mapsto> v)\<rparr>\<rparr>"

definition Table_use_page_directory_d :: "int \<Rightarrow> Database \<Rightarrow> py_error + Database" where
  "Table_use_page_directory_d k db =
     (case page_directory (table db) k of
        None \<Rightarrow> Inl KeyError
      | Some _ \<Rightarrow>
          Inr (db\<lparr>table := (table db)\<lparr>page_directory := (page_directory (table db))(k := None)\<rparr>\<rparr>))"

text \<open>\<open>page_range, page, offset = use_page_directory("r", rid, None)\<close>: unpacking -1
  raises \<open>TypeError\<close>.\<close>

definition unpack_location :: "(int \<times> int \<times> int) option \<Rightarrow> py_error + (int \<times> int \<times> int)" where
  "unpack_location v = (case v of None \<Rightarrow> Inl TypeError | Some loc \<Rightarrow> Inr loc)"

definition Table_add_to_merge_queue :: "int \<times> int \<Rightarrow> Database \<Rightarrow> Database" where
  "Table_add_to_merge_queue v db =
     db\<lparr>table := (table db)\<lparr>merge_queue := merge_queue (table db) @ [v]\<rparr>\<rparr>"

section \<open>bufferpool.py\<close>

definition Bufferpool_has_capacity :: "Database \<Rightarrow> bool" where
  "Bufferpool_has_capacity db \<longleftrightarrow>
     \<not> length (pages (bufferpool db)) = max_capacity (bufferpool db)"

definition Bufferpool_create_phys_page_path :: "int \<Rightarrow> int \<Rightarrow> int \<Rightarrow> path" where
  "Bufferpool_create_phys_page_path page_range_num page_num column_num =
     (page_range_num, page_num, column_num)"

definition path_file :: "path \<Rightarrow> file_key" where
  "path_file p = (case p of (pr, pg, c) \<Rightarrow> ColFile pr pg c)"

text \<open>\<open>__fetch_phys_page\<close>: \<open>open\<close> raises on a missing file, \<open>mmap\<close> on an empty one.\<close>

definition Bufferpool_fetch_phys_page :: "Config \<Rightarrow> path \<Rightarrow> Database \<Rightarrow> py_error + PhysicalPage" where
  "Bufferpool_fetch_phys_page cfg phys_page_path db =
     (case files db (path_file phys_page_path) of
        None \<Rightarrow> Inl FileNotFoundError
      | Some d \<Rightarrow>
          if d = [] then Inl ValueError
          else Inr \<lparr>num_records =
                      from_bytes_signed (py_slice d (NUM_RECORDS_START cfg) (NUM_RECORDS_END cfg)),
                    tps = from_bytes_signed (py_slice d (TPS_START cfg) (TPS_END cfg)),
                    num_updates =
                      from_bytes_signed (py_slice d (NUM_UPDATES_START cfg) (NUM_UPDATES_END cfg)),
                    data = d, is_dirty = False, pin_count = 0, lock = False,
                    num_records_lock = False\<rparr>)"

text \<open>\<open>__write_page_to_disk\<close>: the page's bytes overwrite the start of the mapped
  file; \<open>mmap.write\<close> raises \<open>ValueError\<close> when they are more than the file holds.\<close>

definition Bufferpool_write_page_to_disk_path :: "path \<Rightarrow> Database \<Rightarrow> py_error + Database" where
  "Bufferpool_write_page_to_disk_path phys_page_path db =
     (case files db (path_file phys_page_path) of
        None \<Rightarrow> Inl FileNotFoundError
      | Some old \<Rightarrow>
          if old = [] then Inl ValueError
          else (case map_of (pages (bufferpool db)) phys_page_path of
                  None \<Rightarrow> Inl KeyError
                | Some a \<Rightarrow>
                    (let d = data (heap db ! a)
                     in if length d > length old then Inl ValueError
                        else Inr (db\<lparr>files := (files db)(path_file phys_page_path \<mapsto>
                                                   d @ drop (length d) old)\<rparr>))))"

text \<open>The \<open>for path in self.lru_pages\<close> loop of \<open>__evict\<close>: the first path whose page
  has pin count 0.\<close>

fun evict_find ::
  "(path \<times> nat) list \<Rightarrow> PhysicalPage list \<Rightarrow> path list \<Rightarrow> py_error + (path \<times> nat) option" where
  "evict_find pgs h [] = Inr None"
| "evict_find pgs h (p # rest) =
     (case map_of pgs p of
        None \<Rightarrow> Inl KeyError
      | Some a \<Rightarrow> if pin_count (h ! a) = 0 then Inr (Some (p, a)) else evict_find pgs h rest)"

text \<open>
  \<open>__evict\<close> returns \<open>True\<close> when the pool is below capacity, \<open>False\<close> when every
  page is pinned, and nothing after an eviction. On the \<open>False\<close> path it returns with
  \<open>evict_lock\<close> still held.
\<close>

definition Bufferpool_evict :: "Database \<Rightarrow> py_error + (bool option \<times> Database)" where
  "Bufferpool_evict db =
     (let bp = bufferpool db in
      if evict_lock bp then Inl Blocked
      else if length (pages bp) < max_capacity bp then Inr (Some True, db)
      else
        (case evict_find (pages bp) (heap db) (lru_pages bp) of
           Inl e \<Rightarrow> Inl e
         | Inr None \<Rightarrow> Inr (Some False, db\<lparr>bufferpool := bp\<lparr>evict_lock := True\<rparr>\<rparr>)
         | Inr (Some (key_of_page, a)) \<Rightarrow>
             bind_err (if is_dirty (heap db ! a)
                       then Bufferpool_write_page_to_disk_path key_of_page db
                       else Inr db) (\<lambda>db1.
               if key_of_page \<notin> set (lru_pages bp) then Inl ValueError
               else if page_locks bp key_of_page = None then Inl KeyError
               else Inr (None,
                         db1\<lparr>bufferpool :=
                               bp\<lparr>pages := dict_pop (pages bp) key_of_page,
                                   lru_pages := remove1 key_of_page (lru_pages bp),
                                   page_locks := (page_locks bp)(key_of_page := None),
                                   evict_lock := False\<rparr>\<rparr>))))"

text \<open>\<open>__get_physical_page_helper\<close> returns the page object, here its address.\<close>

definition Bufferpool_get_physical_page_helper ::
  "Config \<Rightarrow> int \<Rightarrow> int \<Rightarrow> int \<Rightarrow> bool \<Rightarrow> Database \<Rightarrow> py_error + (nat \<times> Database)" where
  "Bufferpool_get_physical_page_helper cfg page_range_num page_num column_num add_to_bufferpool db =
     (let phys_page_path = Bufferpool_create_phys_page_path page_range_num page_num column_num;
          bp = bufferpool db
      in if page_locks bp phys_page_path = Some True then Inl Blocked
         else
           (let db1 = db\<lparr>bufferpool := bp\<lparr>page_locks := (page_locks bp)(phys_page_path \<mapsto> True)\<rparr>\<rparr>
            in case map_of (pages bp) phys_page_path of
                 Some a \<Rightarrow>
                   Inr (a, db\<lparr>bufferpool :=
                                bp\<lparr>page_locks := (page_locks bp)(phys_page_path \<mapsto> False)\<rparr>\<rparr>)
               | None \<Rightarrow>
                   bind_err (if \<not> Bufferpool_has_capacity db1 \<and> add_to_bufferpool
                             then (case Bufferpool_evict db1 of
                                     Inl e \<Rightarrow> Inl e | Inr (_, db2) \<Rightarrow> Inr db2)
                             else Inr db1) (\<lambda>db2.
                   bind_err (Bufferpool_fetch_phys_page cfg phys_page_path db2) (\<lambda>page.
                     (case heap_alloc page db2 of
                        (a, db3) \<Rightarrow>
                          (let bp3 = bufferpool db3;
                               bp4 = (if add_to_bufferpool
                                      then bp3\<lparr>pages := dict_set (pages bp3) phys_page_path a,
                                               lru_pages := lru_pages bp3 @ [phys_page_path]\<rparr>
                                      else bp3)
                           in case page_locks bp4 phys_page_path of
                                None \<Rightarrow> Inl KeyError
                              | Some held \<Rightarrow>
                                  bind_err (lock_release held) (\<lambda>held'.
                                    Inr (a, db3\<lparr>bufferpool :=
                                                  bp4\<lparr>page_locks :=
                                                        (page_locks bp4)(phys_page_path \<mapsto> held')\<rparr>\<rparr>))))))))"

definition Bufferpool_get_physical_page ::
  "Config \<Rightarrow> int \<Rightarrow> int \<Rightarrow> int \<Rightarrow> Database \<Rightarrow> py_error + (nat \<times> Database)" where
  "Bufferpool_get_physical_page cfg page_range_num page_num column_num db =
     Bufferpool_get_physical_page_helper cfg page_range_num page_num column_num True db"

definition Bufferpool_get_physical_page_no_add ::
  "Config \<Rightarrow> int \<Rightarrow> int \<Rightarrow> int \<Rightarrow> Database \<Rightarrow> py_error + (nat \<times> Database)" where
  "Bufferpool_get_physical_page_no_add cfg page_range_num page_num column_num db =
     Bufferpool_get_physical_page_helper cfg page_range_num page_num column_num False db"

text \<open>\<open>__get_page_helper\<close> returns a \<open>Page\<close>, here the list of its column objects.\<close>

definition Bufferpool_get_page_helper ::
  "Config \<Rightarrow> int \<Rightarrow> int \<Rightarrow> bool \<Rightarrow> Database \<Rightarrow> py_error + (nat list \<times> Database)" where
  "Bufferpool_get_page_helper cfg page_range_num page_num add_to_bufferpool db =
     for_collect
       (\<lambda>i. Bufferpool_get_physical_page_helper cfg page_range_num page_num i add_to_bufferpool)
       (py_range (total_num_columns (table db))) db"

definition Bufferpool_get_page ::
  "Config \<Rightarrow> int \<Rightarrow> int \<Rightarrow> Database \<Rightarrow> py_error + (nat list \<times> Database)" where
  "Bufferpool_get_page cfg page_range_num page_num db =
     Bufferpool_get_page_helper cfg page_range_num page_num True db"

definition Bufferpool_get_page_no_add ::
  "Config \<Rightarrow> int \<Rightarrow> int \<Rightarrow> Database \<Rightarrow> py_error + (nat list \<times> Database)" where
  "Bufferpool_get_page_no_add cfg page_range_num page_num db =
     Bufferpool_get_page_helper cfg page_range_num page_num False db"

definition Bufferpool_get_tps ::
  "Config \<Rightarrow> int \<Rightarrow> int \<Rightarrow> Database \<Rightarrow> py_error + (int \<times> Database)" where
  "Bufferpool_get_tps cfg page_range_num page_num db =
     bind_err (Bufferpool_get_physical_page cfg page_range_num page_num RID_COLUMN db) (\<lambda>(a, db1).
       Inr (from_bytes_signed (py_slice (data (heap db1 ! a)) (TPS_START cfg) (TPS_END cfg)), db1))"

definition Bufferpool_get_num_updates ::
  "Config \<Rightarrow> int \<Rightarrow> int \<Rightarrow> Database \<Rightarrow> py_error + (int \<times> Database)" where
  "Bufferpool_get_num_updates cfg page_range_num page_num db =
     bind_err (Bufferpool_get_physical_page cfg page_range_num page_num RID_COLUMN db) (\<lambda>(a, db1).
       Inr (from_bytes_signed
              (py_slice (data (heap db1 ! a)) (NUM_UPDATES_START cfg) (NUM_UPDATES_END cfg)), db1))"

definition Bufferpool_set_tps ::
  "Config \<Rightarrow> int \<Rightarrow> int \<Rightarrow> int \<Rightarrow> Database \<Rightarrow> py_error + Database" where
  "Bufferpool_set_tps cfg page_range_num page_num new_tps db =
     bind_err (Bufferpool_get_physical_page cfg page_range_num page_num RID_COLUMN db) (\<lambda>(a, db1).
     bind_err (to_bytes_unsigned (COLUMN_SIZE cfg) new_tps) (\<lambda>b.
       Inr (heap_upd a (\<lambda>p. p\<lparr>data := py_slice_assign (data p) (TPS_START cfg) (TPS_END cfg) b\<rparr>)
              db1)))"

definition Bufferpool_set_num_updates ::
  "Config \<Rightarrow> int \<Rightarrow> int \<Rightarrow> int \<Rightarrow> Database \<Rightarrow> py_error + Database" where
  "Bufferpool_set_num_updates cfg page_range_num page_num n db =
     bind_err (Bufferpool_get_physical_page cfg page_range_num page_num RID_COLUMN db) (\<lambda>(a, db1).
     bind_err (to_bytes_unsigned (COLUMN_SIZE cfg) n) (\<lambda>b.
       Inr (heap_upd a
              (\<lambda>p. p\<lparr>data := py_slice_assign (data p) (NUM_UPDATES_START cfg)
                                (NUM_UPDATES_END cfg) b\<rparr>)
              db1)))"

definition Bufferpool_get_record_column_val ::
  "Config \<Rightarrow> int \<Rightarrow> int \<Rightarrow> Database \<Rightarrow> py_error + (int \<times> Database)" where
  "Bufferpool_get_record_column_val cfg r column_num db =
     bind_err (unpack_location (Table_use_page_directory_r r db)) (\<lambda>(page_range_num, page_num, offset).
     bind_err (Bufferpool_get_physical_page cfg page_range_num page_num column_num db) (\<lambda>(a, db1).
       Inr (slot_val cfg (data (heap db1 ! a)) offset, db1)))"

definition Bufferpool_get_record ::
  "Config \<Rightarrow> int \<Rightarrow> Database \<Rightarrow> py_error + (Record \<times> Database)" where
  "Bufferpool_get_record cfg r db =
     bind_err (for_collect (Bufferpool_get_record_column_val cfg r)
                 [INDIRECTION_COLUMN, RID_COLUMN, TIMESTAMP_COLUMN, SCHEMA_ENCODING_COLUMN] db)
       (\<lambda>(metadata, db1).
     bind_err (for_collect (Bufferpool_get_record_column_val cfg r)
                 (py_range2 DATA_COL_START (total_num_columns (table db1))) db1)
       (\<lambda>(cols, db2).
     bind_err (py_index metadata RID_COLUMN) (\<lambda>m_rid.
     bind_err (py_index metadata INDIRECTION_COLUMN) (\<lambda>m_ind.
     bind_err (py_index metadata TIMESTAMP_COLUMN) (\<lambda>m_ts.
     bind_err (py_index metadata SCHEMA_ENCODING_COLUMN) (\<lambda>m_se.
       (case Record_new m_rid (table_key (table db2)) cols db2 cfg of
          (record, db3) \<Rightarrow>
            Inr (record\<lparr>indirection := m_ind, timestamp := m_ts, schema_encoding := m_se\<rparr>,
                 db3))))))))"

definition Bufferpool_get_highest_base_page_num :: "int \<Rightarrow> Database \<Rightarrow> py_error + int" where
  "Bufferpool_get_highest_base_page_num page_range_num db =
     bind_err (py_index (page_ranges_metadata (table db)) page_range_num) (\<lambda>(_, b, _). Inr b)"

definition Bufferpool_get_highest_tail_page_num :: "int \<Rightarrow> Database \<Rightarrow> py_error + int" where
  "Bufferpool_get_highest_tail_page_num page_range_num db =
     bind_err (py_index (page_ranges_metadata (table db)) page_range_num) (\<lambda>(_, _, t). Inr t)"

definition Bufferpool_get_highest_page_range_num :: "Database \<Rightarrow> int" where
  "Bufferpool_get_highest_page_range_num db = num_page_ranges (table db) - 1"

definition Bufferpool_page_has_capacity ::
  "Config \<Rightarrow> int \<Rightarrow> int \<Rightarrow> Database \<Rightarrow> py_error + (bool \<times> Database)" where
  "Bufferpool_page_has_capacity cfg page_range_num page_num db =
     bind_err (Bufferpool_get_physical_page cfg page_range_num page_num 0 db) (\<lambda>(a, db1).
     bind_err (PhysicalPage_has_capacity cfg (heap db1 ! a)) (\<lambda>r. Inr (r, db1)))"

definition Bufferpool_page_range_has_capacity ::
  "Config \<Rightarrow> int \<Rightarrow> Database \<Rightarrow> py_error + (bool \<times> Database)" where
  "Bufferpool_page_range_has_capacity cfg page_range_num db =
     bind_err (Bufferpool_get_highest_base_page_num page_range_num db) (\<lambda>max_bp_num.
       if max_bp_num < MAX_BASE_PAGES - 1 then Inr (True, db)
       else Bufferpool_page_has_capacity cfg page_range_num max_bp_num db)"

text \<open>\<open>self.db.get_table(table_name).page_ranges_metadata[page_range_num][i] += 1\<close>.\<close>

definition metadata_incr ::
  "int \<Rightarrow> bool \<Rightarrow> (int \<times> int \<times> int) list \<Rightarrow> py_error + (int \<times> int \<times> int) list" where
  "metadata_incr page_range_num tail md =
     (let j = (if page_range_num < 0 then int (length md) + page_range_num else page_range_num)
      in if 0 \<le> j \<and> j < int (length md)
         then (case md ! nat j of
                 (n, b, t) \<Rightarrow> Inr (md[nat j := (if tail then (n, b, t + 1) else (n, b + 1, t))]))
         else Inl IndexError)"

text \<open>\<open>create_page_range\<close>: \<open>__go_to_path\<close> walks to the table's folder, then
  \<open>os.mkdir\<close> raises when the folder of the page range is there already.\<close>

definition Bufferpool_create_page_range :: "Config \<Rightarrow> Database \<Rightarrow> py_error + (int \<times> Database)" where
  "Bufferpool_create_page_range cfg db =
     (let max_pr_num = Bufferpool_get_highest_page_range_num db
      in bind_err (if max_pr_num \<noteq> -1
                   then Bufferpool_page_range_has_capacity cfg max_pr_num db
                   else Inr (False, db)) (\<lambda>(cap, db1).
         if max_pr_num \<noteq> -1 \<and> cap then Inr (max_pr_num, db1)
         else
           (let n = max_pr_num + 1
            in if n \<in> page_range_dirs db1 then Inl FileExistsError
               else Inr (n,
                         db1\<lparr>page_range_dirs := insert n (page_range_dirs db1),
                             table := (table db1)
                               \<lparr>num_page_ranges := num_page_ranges (table db1) + 1,
                                page_ranges_metadata :=
                                  page_ranges_metadata (table db1) @ [(n, -1, MAX_BASE_PAGES - 1)]\<rparr>\<rparr>))))"

text \<open>The \<open>for i in range(num_columns)\<close> loop that creates the column files of a page,
  each \<open>PAGE_SIZE\<close> zero bytes.\<close>

definition create_column_files :: "Config \<Rightarrow> int \<Rightarrow> int \<Rightarrow> Database \<Rightarrow> Database" where
  "create_column_files cfg page_range_num page_num db =
     db\<lparr>files := fold (\<lambda>i f. f(ColFile page_range_num page_num i \<mapsto> replicate (PAGE_SIZE cfg) 0))
                    (py_range (total_num_columns (table db))) (files db)\<rparr>"

text \<open>\<open>insert_base_page\<close> and \<open>insert_tail_page\<close>: \<open>__go_to_path\<close> creates the folder
  of the page range when it is missing.\<close>

definition Bufferpool_insert_base_page ::
  "Config \<Rightarrow> int \<Rightarrow> Database \<Rightarrow> py_error + (bool \<times> Database)" where
  "Bufferpool_insert_base_page cfg page_range_num db0 =
     (let db = db0\<lparr>page_range_dirs := insert page_range_num (page_range_dirs db0)\<rparr>
      in bind_err (Bufferpool_get_highest_base_page_num page_range_num db) (\<lambda>max_bp_num.
         bind_err (if max_bp_num \<noteq> -1
                   then Bufferpool_page_has_capacity cfg page_range_num max_bp_num db
                   else Inr (False, db)) (\<lambda>(cap, db1).
         if max_bp_num \<noteq> -1 \<and> cap then Inr (False, db1)
         else if max_bp_num = MAX_BASE_PAGES - 1 then Inr (False, db1)
         else if (page_range_num, max_bp_num + 1) \<in> page_dirs db1 then Inl FileExistsError
         else
           (let db2 = create_column_files cfg page_range_num (max_bp_num + 1)
                        (db1\<lparr>page_dirs := insert (page_range_num, max_bp_num + 1) (page_dirs db1)\<rparr>)
            in bind_err (metadata_incr page_range_num False (page_ranges_metadata (table db2)))
                 (\<lambda>md. Inr (True, db2\<lparr>table := (table db2)\<lparr>page_ranges_metadata := md\<rparr>\<rparr>))))))"

definition Bufferpool_insert_tail_page ::
  "Config \<Rightarrow> int \<Rightarrow> Database \<Rightarrow> py_error + (bool \<times> Database)" where
  "Bufferpool_insert_tail_page cfg page_range_num db0 =
     (let db = db0\<lparr>page_range_dirs := insert page_range_num (page_range_dirs db0)\<rparr>
      in bind_err (Bufferpool_get_highest_tail_page_num page_range_num db) (\<lambda>tail_page_num.
         bind_err (if tail_page_num \<noteq> MAX_BASE_PAGES - 1
                   then Bufferpool_page_has_capacity cfg page_range_num tail_page_num db
                   else Inr (False, db)) (\<lambda>(cap, db1).
         if tail_page_num \<noteq> MAX_BASE_PAGES - 1 \<and> cap then Inr (False, db1)
         else if (page_range_num, tail_page_num + 1) \<in> page_dirs db1 then Inl FileExistsError
         else
           (let db2 = create_column_files cfg page_range_num (tail_page_num + 1)
                        (db1\<lparr>page_dirs := insert (page_range_num, tail_page_num + 1) (page_dirs db1)\<rparr>)
            in bind_err (metadata_incr page_range_num True (page_ranges_metadata (table db2)))
                 (\<lambda>md. Inr (True, db2\<lparr>table := (table db2)\<lparr>page_ranges_metadata := md\<rparr>\<rparr>))))))"

text \<open>\<open>pin_page\<close> and \<open>unpin_page\<close>.\<close>

definition pin_one :: "string \<Rightarrow> nat \<Rightarrow> Database \<Rightarrow> py_error + Database" where
  "pin_one operation a db =
     bind_err (PhysicalPage_use_pin_count operation (heap db ! a)) (\<lambda>(_, p).
       Inr (heap_upd a (\<lambda>_. p) db))"

definition Bufferpool_pin_page :: "nat list \<Rightarrow> Database \<Rightarrow> py_error + Database" where
  "Bufferpool_pin_page page db = for_each (pin_one ''i'') page db"

definition Bufferpool_unpin_page :: "nat list \<Rightarrow> Database \<Rightarrow> py_error + Database" where
  "Bufferpool_unpin_page page db = for_each (pin_one ''d'') page db"

definition Bufferpool_flush :: "Database \<Rightarrow> py_error + Database" where
  "Bufferpool_flush db =
     bind_err (for_each Bufferpool_write_page_to_disk_path (map fst (pages (bufferpool db))) db)
       (\<lambda>db1. Inr (db1\<lparr>bufferpool := (bufferpool db1)\<lparr>pages := [], lru_pages := []\<rparr>\<rparr>))"

text \<open>\<open>write_page_to_disk\<close>, the merge's write of a base page: each data column file
  is renamed to \<open>old_col<i>_<tps>\<close> and written anew.\<close>

definition write_column_to_disk ::
  "int \<Rightarrow> int \<Rightarrow> nat list \<Rightarrow> int \<Rightarrow> Database \<Rightarrow> py_error + Database" where
  "write_column_to_disk page_range_num page_num page i db =
     bind_err (py_index page RID_COLUMN) (\<lambda>rid_page.
       (case files db (ColFile page_range_num page_num i) of
          None \<Rightarrow> Inl FileNotFoundError
        | Some old \<Rightarrow>
            bind_err (py_index page i) (\<lambda>a.
              Inr (db\<lparr>files := (files db)
                         (OldColFile page_range_num page_num i (tps (heap db ! rid_page)) \<mapsto> old,
                          ColFile page_range_num page_num i \<mapsto> data (heap db ! a))\<rparr>))))"

definition Bufferpool_write_page_to_disk ::
  "int \<Rightarrow> int \<Rightarrow> nat list \<Rightarrow> Database \<Rightarrow> py_error + Database" where
  "Bufferpool_write_page_to_disk page_range_num page_num page db =
     for_each (write_column_to_disk page_range_num page_num page)
       (py_range2 DATA_COL_START (int (length page))) db"

section \<open>Buffer pool scenarios\<close>

text \<open>A database with one table of one user column (five physical pages per page),
  after the first page range and its first base page were created on disk.\<close>

definition db_one_page :: "Config \<Rightarrow> py_error + Database" where
  "db_one_page cfg =
     bind_err (Bufferpool_create_page_range cfg (Database_init cfg 1 0 (\<lambda>_. 0))) (\<lambda>(n, db).
     bind_err (Bufferpool_insert_base_page cfg n db) (\<lambda>(_, db1). Inr db1))"

text \<open>Columns 0 and 1 of the page are fetched, then column 0 is fetched again.\<close>

definition fetch_twice_example :: "py_error + (nat \<times> nat \<times> Database)" where
  "fetch_twice_example =
     bind_err (db_one_page cfg_tiny) (\<lambda>db.
     bind_err (Bufferpool_get_physical_page cfg_tiny 0 0 0 db) (\<lambda>(a, db1).
     bind_err (Bufferpool_get_physical_page cfg_tiny 0 0 1 db1) (\<lambda>(b, db2).
     bind_err (Bufferpool_get_physical_page cfg_tiny 0 0 0 db2) (\<lambda>(c, db3).
       Inr (a, c, db3)))))"

text \<open>A pool of capacity 2 holds columns 0 and 1, both pinned, when column 2 is
  fetched.\<close>

definition cfg_pool2 :: Config where
  "cfg_pool2 = cfg_tiny\<lparr>BUFFERPOOL_SIZE := 2\<rparr>"

definition all_pinned_example :: "py_error + (nat \<times> Database)" where
  "all_pinned_example =
     bind_err (db_one_page cfg_pool2) (\<lambda>db.
     bind_err (Bufferpool_get_physical_page cfg_pool2 0 0 0 db) (\<lambda>(a, db1).
     bind_err (Bufferpool_get_physical_page cfg_pool2 0 0 1 db1) (\<lambda>(b, db2).
     bind_err (Bufferpool_pin_page [a, b] db2) (\<lambda>db3.
       Bufferpool_get_physical_page cfg_pool2 0 0 2 db3))))"

section \<open>page.py: Page\<close>

text \<open>A \<open>Page\<close> is the list of its column objects. \<open>xs[i] = v\<close> on a list raises
  \<open>IndexError\<close> out of range.\<close>

definition py_list_set :: "'a list \<Rightarrow> int \<Rightarrow> 'a \<Rightarrow> py_error + 'a list" where
  "py_list_set xs i v =
     (let j = (if i < 0 then int (length xs) + i else i)
      in if 0 \<le> j \<and> j < int (length xs) then Inr (xs[nat j := v]) else Inl IndexError)"

definition page_col_write ::
  "Config \<Rightarrow> nat list \<Rightarrow> int \<Rightarrow> int \<Rightarrow> int \<Rightarrow> Database \<Rightarrow> py_error + Database" where
  "page_col_write cfg page offset i v db =
     bind_err (py_index page i) (\<lambda>a.
     bind_err (PhysicalPage_write cfg v offset (heap db ! a)) (\<lambda>(_, p).
       Inr (heap_upd a (\<lambda>_. p) db)))"

text \<open>\<open>enumerate(xs, start=n)\<close>.\<close>

definition py_enumerate :: "int \<Rightarrow> 'a list \<Rightarrow> (int \<times> 'a) list" where
  "py_enumerate n xs = zip (map (\<lambda>k. n + int k) [0 ..< length xs]) xs"

definition Page_write :: "Config \<Rightarrow> nat list \<Rightarrow> Record \<Rightarrow> int \<Rightarrow> Database \<Rightarrow> py_error + Database" where
  "Page_write cfg page record offset db =
     bind_err (max_records cfg) (\<lambda>m.
       if offset \<le> m - 1
       then bind_err (page_col_write cfg page offset INDIRECTION_COLUMN (indirection record) db) (\<lambda>db1.
            bind_err (page_col_write cfg page offset RID_COLUMN (rid record) db1) (\<lambda>db2.
            bind_err (page_col_write cfg page offset TIMESTAMP_COLUMN (timestamp record) db2) (\<lambda>db3.
            bind_err (page_col_write cfg page offset SCHEMA_ENCODING_COLUMN
                        (schema_encoding record) db3) (\<lambda>db4.
              for_each (\<lambda>(i, v). page_col_write cfg page offset i v)
                (py_enumerate 4 (columns record)) db4))))
       else Inr db)"

definition Page_get_rids_in_page :: "Config \<Rightarrow> nat list \<Rightarrow> Database \<Rightarrow> py_error + int list" where
  "Page_get_rids_in_page cfg page db =
     bind_err (py_index page RID_COLUMN) (\<lambda>a. PhysicalPage_data_to_int_array cfg (heap db ! a))"

text \<open>\<open>create_copy\<close> builds a new \<open>PhysicalPage\<close> per column; the copy's record count
  is what \<open>use_num_records("r")\<close> returns.\<close>

definition copy_column :: "Config \<Rightarrow> nat \<Rightarrow> Database \<Rightarrow> py_error + (nat \<times> Database)" where
  "copy_column cfg a db =
     bind_err (PhysicalPage_use_num_records cfg ''r'' (heap db ! a)) (\<lambda>(n, p0).
     bind_err (PhysicalPage_get_tps p0) (\<lambda>t.
     bind_err (PhysicalPage_get_num_updates p0) (\<lambda>u.
     bind_err (PhysicalPage_get_data p0) (\<lambda>d.
       Inr (heap_alloc ((PhysicalPage_init cfg)\<lparr>num_records := n, tps := t, num_updates := u,
                                               data := d\<rparr>) db)))))"

definition Page_create_copy :: "Config \<Rightarrow> nat list \<Rightarrow> Database \<Rightarrow> py_error + (nat list \<times> Database)" where
  "Page_create_copy cfg page db = for_collect (copy_column cfg) page db"

section \<open>index.py: lookups\<close>

text \<open>The methods return -1 for a column without index or a value without entry; here
  \<open>None\<close>.\<close>

definition Index_is_indexed :: "int \<Rightarrow> Database \<Rightarrow> py_error + bool" where
  "Index_is_indexed column db =
     bind_err (py_index (indices (table db)) column) (\<lambda>ix. Inr (ix \<noteq> None))"

definition Index_get_all_base_rids :: "Database \<Rightarrow> py_error + int list option" where
  "Index_get_all_base_rids db =
     bind_err (py_index (indices (table db)) (table_key (table db) + DATA_COL_START)) (\<lambda>ix.
       case ix of None \<Rightarrow> Inr None | Some d \<Rightarrow> Inr (Some (concat (map snd d))))"

definition Index_locate :: "int \<Rightarrow> int \<Rightarrow> Database \<Rightarrow> py_error + int list option" where
  "Index_locate column v db =
     bind_err (py_index (indices (table db)) column) (\<lambda>ix.
       case ix of None \<Rightarrow> Inr None | Some d \<Rightarrow> Inr (map_of d v))"

definition Index_locate_range :: "int \<Rightarrow> int \<Rightarrow> int \<Rightarrow> Database \<Rightarrow> py_error + int list option" where
  "Index_locate_range begin end column db =
     bind_err (py_index (indices (table db)) column) (\<lambda>ix.
       case ix of
         None \<Rightarrow> Inr None
       | Some d \<Rightarrow>
           Inr (Some (concat (map (\<lambda>i. case map_of d i of None \<Rightarrow> [] | Some rs \<Rightarrow> rs)
                                  (py_range2 begin (end + 1))))))"

definition Index_drop_index :: "int \<Rightarrow> Database \<Rightarrow> py_error + Database" where
  "Index_drop_index column_number db =
     bind_err (py_list_set (indices (table db)) column_number None) (\<lambda>ixs.
       Inr (db\<lparr>table := (table db)\<lparr>indices := ixs\<rparr>\<rparr>))"

text \<open>Adding a RID under a value: a new one-element list, or an append.\<close>

definition index_put :: "(int \<times> int list) list \<Rightarrow> int \<Rightarrow> int \<Rightarrow> (int \<times> int list) list" where
  "index_put d v r =
     (case map_of d v of None \<Rightarrow> dict_set d v [r] | Some rs \<Rightarrow> dict_set d v (rs @ [r]))"

text \<open>\<open>add\<close> returns \<open>False\<close> for a column without index and nothing otherwise.\<close>

definition Index_add :: "int \<Rightarrow> int \<Rightarrow> int \<Rightarrow> Database \<Rightarrow> py_error + Database" where
  "Index_add column k v db =
     bind_err (py_index (indices (table db)) column) (\<lambda>ix.
       case ix of
         None \<Rightarrow> Inr db
       | Some d \<Rightarrow>
           bind_err (py_list_set (indices (table db)) column (Some (index_put d k v))) (\<lambda>ixs.
             Inr (db\<lparr>table := (table db)\<lparr>indices := ixs\<rparr>\<rparr>)))"

definition Index_update_index ::
  "int \<Rightarrow> int \<Rightarrow> int \<Rightarrow> int \<Rightarrow> Database \<Rightarrow> py_error + (bool \<times> Database)" where
  "Index_update_index column_number old_value new_value base_rid db =
     bind_err (py_index (indices (table db)) column_number) (\<lambda>ix.
     bind_err (if ix = None then Inr None
               else py_index (indices (table db)) (table_key (table db) + DATA_COL_START)) (\<lambda>kx.
       case (ix, kx) of
         (Some d, Some _) \<Rightarrow>
           (case map_of d old_value of
              None \<Rightarrow> Inl KeyError
            | Some rs \<Rightarrow>
                if base_rid \<notin> set rs then Inl ValueError
                else
                  (let rs' = remove1 base_rid rs;
                       d1 = (if length rs' = 0 then dict_pop d old_value
                             else dict_set d old_value rs');
                       d2 = index_put d1 new_value base_rid
                   in bind_err (py_list_set (indices (table db)) column_number (Some d2)) (\<lambda>ixs.
                        Inr (True, db\<lparr>table := (table db)\<lparr>indices := ixs\<rparr>\<rparr>))))
       | _ \<Rightarrow> Inr (False, db)))"

text \<open>One round of the \<open>for i, key in enumerate(possible_keys)\<close> loop of
  \<open>delete_index\<close>.\<close>

definition delete_index_step :: "int \<Rightarrow> int \<times> int \<Rightarrow> Database \<Rightarrow> py_error + Database" where
  "delete_index_step base_rid ik db =
     (case ik of (i, k) \<Rightarrow>
        bind_err (py_index (indices (table db)) i) (\<lambda>ix.
          case ix of
            None \<Rightarrow> Inr db
          | Some d \<Rightarrow>
              (case map_of d k of
                 None \<Rightarrow> Inr db
               | Some rs \<Rightarrow>
                   (let rs' = remove1 base_rid rs;
                        d' = (if length rs' = 0 then dict_pop d k else dict_set d k rs')
                    in bind_err (py_list_set (indices (table db)) i (Some d')) (\<lambda>ixs.
                         Inr (db\<lparr>table := (table db)\<lparr>indices := ixs\<rparr>\<rparr>))))))"

definition Index_delete_index :: "int list \<Rightarrow> int \<Rightarrow> Database \<Rightarrow> py_error + Database" where
  "Index_delete_index possible_keys base_rid db =
     for_each (delete_index_step base_rid) (py_enumerate 0 possible_keys) db"

definition Record_to_array :: "Record \<Rightarrow> int list" where
  "Record_to_array r = [indirection r, rid r, timestamp r, schema_encoding r] @ columns r"

section \<open>table.py: reading versions\<close>

text \<open>Direct attribute writes on a page object: \<open>p.pin_count += n\<close>,
  \<open>p.is_dirty = True\<close>, \<open>p.num_records += 1\<close>.\<close>

definition pin_add :: "nat \<Rightarrow> int \<Rightarrow> Database \<Rightarrow> Database" where
  "pin_add a n db = heap_upd a (\<lambda>p. p\<lparr>pin_count := pin_count p + n\<rparr>) db"

definition set_dirty :: "nat \<Rightarrow> Database \<Rightarrow> Database" where
  "set_dirty a db = heap_upd a (\<lambda>p. p\<lparr>is_dirty := True\<rparr>) db"

definition incr_num_records :: "nat \<Rightarrow> Database \<Rightarrow> Database" where
  "incr_num_records a db = heap_upd a (\<lambda>p. p\<lparr>num_records := num_records p + 1\<rparr>) db"

definition page_change_val :: "Config \<Rightarrow> nat \<Rightarrow> int \<Rightarrow> int \<Rightarrow> Database \<Rightarrow> py_error + Database" where
  "page_change_val cfg a new_val offset db =
     bind_err (PhysicalPage_change_val cfg new_val offset (heap db ! a)) (\<lambda>p.
       Inr (heap_upd a (\<lambda>_. p) db))"

text \<open>
  The \<open>while version <= 0\<close> loop of \<open>get_record_version\<close> and
  \<open>get_record_column_version\<close>: it follows the indirection of the current record
  until the version counter is positive or the indirection is null, and yields the RID
  it stops at.
\<close>

function version_walk :: "Config \<Rightarrow> int \<Rightarrow> int \<Rightarrow> Database \<Rightarrow> py_error + (int \<times> Database)" where
  "version_walk cfg r version db =
     (if version \<le> 0
      then (case Bufferpool_get_record_column_val cfg r INDIRECTION_COLUMN db of
              Inl e \<Rightarrow> Inl e
            | Inr (ind, db1) \<Rightarrow>
                if ind = INDIRECTION_NULL cfg then Inr (r, db1)
                else version_walk cfg ind (version + 1) db1)
      else Inr (r, db))"
  by pat_completeness auto
termination
  by (relation "measure (\<lambda>(cfg, r, version, db). nat (1 - version))") auto

definition Table_get_record_version ::
  "Config \<Rightarrow> int \<Rightarrow> int \<Rightarrow> Database \<Rightarrow> py_error + (Record option \<times> Database)" where
  "Table_get_record_version cfg r version db =
     (case page_directory (table db) r of
        None \<Rightarrow> Inr (None, db)
      | Some (base_page_range_num, base_page_num, base_offset) \<Rightarrow>
          if base_page_num \<ge> MAX_BASE_PAGES then Inr (None, db)
          else
            bind_err (Bufferpool_get_record_column_val cfg r INDIRECTION_COLUMN db) (\<lambda>(ind, db1).
            bind_err (Bufferpool_get_tps cfg base_page_range_num base_page_num db1) (\<lambda>(t, db2).
              if ind \<le> t
              then bind_err (Bufferpool_get_record cfg r db2) (\<lambda>(record, db3).
                     Inr (Some record, db3))
              else bind_err (version_walk cfg r version db2) (\<lambda>(r', db3).
                   bind_err (Bufferpool_get_record cfg r' db3) (\<lambda>(record, db4).
                     Inr (Some record, db4))))))"

definition Table_get_latest_record ::
  "Config \<Rightarrow> int \<Rightarrow> Database \<Rightarrow> py_error + (Record option \<times> Database)" where
  "Table_get_latest_record cfg r db = Table_get_record_version cfg r 0 db"

definition Table_get_record_column_version ::
  "Config \<Rightarrow> int \<Rightarrow> int \<Rightarrow> int \<Rightarrow> Database \<Rightarrow> py_error + (int option \<times> Database)" where
  "Table_get_record_column_version cfg r version column db =
     (case Table_use_page_directory_r r db of
        None \<Rightarrow> Inr (None, db)
      | Some (base_page_range_num, base_page_num, base_offset) \<Rightarrow>
          if base_page_num \<ge> MAX_BASE_PAGES then Inr (None, db)
          else
            bind_err (Bufferpool_get_record_column_val cfg r INDIRECTION_COLUMN db) (\<lambda>(ind, db1).
            bind_err (Bufferpool_get_tps cfg base_page_range_num base_page_num db1) (\<lambda>(t, db2).
              if ind \<le> t
              then bind_err (Bufferpool_get_record_column_val cfg r column db2) (\<lambda>(v, db3).
                     Inr (Some v, db3))
              else bind_err (version_walk cfg r version db2) (\<lambda>(r', db3).
                   bind_err (Bufferpool_get_record_column_val cfg r' column db3) (\<lambda>(v, db4).
                     Inr (Some v, db4))))))"

definition Table_get_latest_column_val ::
  "Config \<Rightarrow> int \<Rightarrow> int \<Rightarrow> Database \<Rightarrow> py_error + (int option \<times> Database)" where
  "Table_get_latest_column_val cfg r column db = Table_get_record_column_version cfg r 0 column db"

section \<open>table.py: writing metadata\<close>

text \<open>\<open>delete_record\<close> returns \<open>None\<close> for an unknown RID and the record's
  indirection otherwise.\<close>

definition Table_delete_record ::
  "Config \<Rightarrow> int \<Rightarrow> Database \<Rightarrow> py_error + (int option \<times> Database)" where
  "Table_delete_record cfg r db =
     (case Table_use_page_directory_r r db of
        None \<Rightarrow> Inr (None, db)
      | Some (page_range_num, page_num, offset) \<Rightarrow>
          bind_err (Bufferpool_get_physical_page cfg page_range_num page_num RID_COLUMN db)
            (\<lambda>(rid_page, db1).
          bind_err (page_change_val cfg rid_page (INDIRECTION_NULL cfg) offset
                      (pin_add rid_page 1 db1)) (\<lambda>db2.
          bind_err (Bufferpool_get_record_column_val cfg r INDIRECTION_COLUMN db2)
            (\<lambda>(indirection_val, db3).
          bind_err (Table_use_page_directory_d r db3) (\<lambda>db4.
            Inr (Some indirection_val, pin_add rid_page (-1) (set_dirty rid_page db4)))))))"

definition Table_change_indirection ::
  "Config \<Rightarrow> int \<Rightarrow> int \<Rightarrow> Database \<Rightarrow> py_error + (bool \<times> Database)" where
  "Table_change_indirection cfg tail_rid base_rid db =
     (case Table_use_page_directory_r base_rid db of
        None \<Rightarrow> Inr (False, db)
      | Some (page_range_num, page_num, offset) \<Rightarrow>
          if page_num < MAX_BASE_PAGES
          then bind_err (Bufferpool_get_physical_page cfg page_range_num page_num
                           INDIRECTION_COLUMN db) (\<lambda>(a, db1).
               bind_err (page_change_val cfg a tail_rid offset (pin_add a 1 db1)) (\<lambda>db2.
                 Inr (True, pin_add a (-1) (set_dirty a db2))))
          else Inr (False, db))"

text \<open>The \<open>for i in range(self.num_columns)\<close> loop of \<open>update_schema_encoding\<close>:
  \<open>new_schema <<= 1\<close>, then \<open>new_schema |= 1\<close> when the two columns differ. The
  first list holds integers only, so \<open>columns[i] != None\<close> is true.\<close>

fun schema_bits :: "int list \<Rightarrow> int list \<Rightarrow> int list \<Rightarrow> int \<Rightarrow> py_error + int" where
  "schema_bits [] cols updated_cols acc = Inr acc"
| "schema_bits (i # rest) cols updated_cols acc =
     bind_err (py_index cols i) (\<lambda>c.
     bind_err (py_index updated_cols i) (\<lambda>u.
       schema_bits rest cols updated_cols (if c \<noteq> u then 2 * acc + 1 else 2 * acc)))"

definition Table_update_schema_encoding ::
  "Config \<Rightarrow> int \<Rightarrow> int \<Rightarrow> int list \<Rightarrow> int list \<Rightarrow> Database \<Rightarrow> py_error + (bool \<times> Database)" where
  "Table_update_schema_encoding cfg base_rid old_schema cols updated_cols db =
     (if length cols = 0 then Inr (True, db)
      else
        (case Table_use_page_directory_r base_rid db of
           None \<Rightarrow> Inr (False, db)
         | Some (page_range_num, page_num, offset) \<Rightarrow>
             if page_range_num < MAX_BASE_PAGES
             then bind_err (Bufferpool_get_physical_page cfg page_range_num page_num
                              SCHEMA_ENCODING_COLUMN db) (\<lambda>(a, db1).
                  bind_err (schema_bits (py_range (num_columns (table db1))) cols updated_cols 0)
                    (\<lambda>new_schema.
                  bind_err (page_change_val cfg a (or new_schema old_schema) offset
                              (pin_add a 1 db1)) (\<lambda>db2.
                    Inr (True, pin_add a (-1) (set_dirty a db2)))))
             else Inr (False, db)))"

section \<open>table.py: scan\<close>

text \<open>The body of \<open>for r in rids\<close> in \<open>scan\<close>; the list collects what
  \<open>get_record_version\<close> returns, a record or \<open>None\<close>.\<close>

definition scan_rid ::
  "Config \<Rightarrow> int \<Rightarrow> int \<Rightarrow> int \<Rightarrow> int \<Rightarrow> Database \<Rightarrow> py_error + (Record option list \<times> Database)" where
  "scan_rid cfg search_key column_num version r db =
     bind_err (Table_get_record_column_version cfg r version column_num db) (\<lambda>(col_val, db1).
       if col_val = Some search_key
       then bind_err (Table_get_record_version cfg r version db1) (\<lambda>(record, db2).
              Inr ([record], db2))
       else Inr ([], db1))"

definition scan_base_page ::
  "Config \<Rightarrow> int \<Rightarrow> int \<Rightarrow> int \<Rightarrow> int \<Rightarrow> int \<Rightarrow> Database \<Rightarrow> py_error + (Record option list \<times> Database)" where
  "scan_base_page cfg search_key column_num version pr_num bp_num db =
     bind_err (Bufferpool_get_physical_page cfg pr_num bp_num RID_COLUMN db) (\<lambda>(a, db1).
     bind_err (PhysicalPage_data_to_int_array cfg (heap db1 ! a)) (\<lambda>rids.
     bind_err (for_collect (scan_rid cfg search_key column_num version) rids (pin_add a 1 db1))
       (\<lambda>(found, db2). Inr (concat found, pin_add a (-1) db2))))"

definition scan_page_range ::
  "Config \<Rightarrow> int \<Rightarrow> int \<Rightarrow> int \<Rightarrow> int \<Rightarrow> Database \<Rightarrow> py_error + (Record option list \<times> Database)" where
  "scan_page_range cfg search_key column_num version pr_num db =
     bind_err (Bufferpool_get_highest_base_page_num pr_num db) (\<lambda>max_bp.
     bind_err (for_collect (scan_base_page cfg search_key column_num version pr_num)
                 (py_range (max_bp + 1)) db) (\<lambda>(found, db1). Inr (concat found, db1)))"

definition Table_scan ::
  "Config \<Rightarrow> int \<Rightarrow> int \<Rightarrow> int \<Rightarrow> Database \<Rightarrow> py_error + (Record option list \<times> Database)" where
  "Table_scan cfg search_key column_num version db =
     bind_err (for_collect (scan_page_range cfg search_key column_num version)
                 (py_range (fst (Table_use_num_page_ranges ''r'' db))) db)
       (\<lambda>(found, db1). Inr (concat found, db1))"

section \<open>index.py: create\_index\<close>

definition index_one_rid :: "Config \<Rightarrow> int \<Rightarrow> int \<Rightarrow> Database \<Rightarrow> py_error + Database" where
  "index_one_rid cfg column_number r db =
     bind_err (Table_get_latest_column_val cfg r column_number db) (\<lambda>(col_val, db1).
       case col_val of
         None \<Rightarrow> Inr db1
       | Some v \<Rightarrow>
           bind_err (py_index (indices (table db1)) column_number) (\<lambda>ix.
             case ix of
               None \<Rightarrow> Inl AttributeError
             | Some d \<Rightarrow>
                 bind_err (py_list_set (indices (table db1)) column_number
                             (Some (index_put d v r))) (\<lambda>ixs.
                   Inr (db1\<lparr>table := (table db1)\<lparr>indices := ixs\<rparr>\<rparr>))))"

definition Index_index_base_page_data ::
  "Config \<Rightarrow> int list \<Rightarrow> int \<Rightarrow> Database \<Rightarrow> py_error + Database" where
  "Index_index_base_page_data cfg rids column_number db =
     for_each (index_one_rid cfg column_number) rids db"

definition index_base_page :: "Config \<Rightarrow> int \<Rightarrow> int \<Rightarrow> int \<Rightarrow> Database \<Rightarrow> py_error + Database" where
  "index_base_page cfg column_number pr_num bp_num db =
     bind_err (Bufferpool_get_physical_page cfg pr_num bp_num RID_COLUMN db) (\<lambda>(a, db1).
     bind_err (PhysicalPage_data_to_int_array cfg (heap (pin_add a 1 db1) ! a)) (\<lambda>rids.
     bind_err (Index_index_base_page_data cfg rids column_number (pin_add a 1 db1)) (\<lambda>db2.
       Inr (pin_add a (-1) db2))))"

definition index_page_range :: "Config \<Rightarrow> int \<Rightarrow> int \<Rightarrow> Database \<Rightarrow> py_error + Database" where
  "index_page_range cfg column_number pr_num db =
     bind_err (Bufferpool_get_highest_base_page_num pr_num db) (\<lambda>max_num_bp.
       for_each (index_base_page cfg column_number pr_num) (py_range (max_num_bp + 1)) db)"

definition Index_create_index :: "Config \<Rightarrow> int \<Rightarrow> Database \<Rightarrow> py_error + Database" where
  "Index_create_index cfg column_number db =
     bind_err (py_list_set (indices (table db)) column_number (Some [])) (\<lambda>ixs.
       (let db1 = db\<lparr>table := (table db)\<lparr>indices := ixs\<rparr>\<rparr>
        in for_each (index_page_range cfg column_number)
             (py_range (num_page_ranges (table db1))) db1))"

section \<open>query.py\<close>

text \<open>What a query method returns: a truth value, an integer, or a list of records.
  \<open>truthy\<close> is Python's truth test, the one \<open>if not query(*args)\<close> and
  \<open>if val\<close> apply.\<close>

datatype query_result = RBool bool | RInt int | RRecords "Record list"

fun truthy :: "query_result \<Rightarrow> bool" where
  "truthy (RBool b) = b"
| "truthy (RInt i) = (i \<noteq> 0)"
| "truthy (RRecords rs) = (rs \<noteq> [])"

text \<open>The \<open>for i, col in enumerate(columns)\<close> loop at the end of
  \<open>__insert_to_tail_page\<close>.\<close>

definition tail_index_step ::
  "int \<Rightarrow> int list \<Rightarrow> int \<times> int \<Rightarrow> Database \<Rightarrow> py_error + Database" where
  "tail_index_step base_rid new_cols ic db =
     (case ic of (i, col) \<Rightarrow>
        bind_err (Index_is_indexed (i + DATA_COL_START) db) (\<lambda>ixd.
          if ixd
          then bind_err (py_index new_cols i) (\<lambda>nv.
               bind_err (Index_update_index (i + DATA_COL_START) col nv base_rid db) (\<lambda>(_, db1).
                 Inr db1))
          else Inr db))"

text \<open>
  \<open>__insert_to_tail_page\<close>, in the order of the source: the choice of the tail page
  (a new one when there is none or the latest is full), the reservation of the next
  offset (\<open>offset = page.columns[0].num_records\<close>, then \<open>p.num_records += 1\<close> on
  every column; \<open>insert\<close> does the same on a base page), the count of updates of the
  base page, the merge check, and the method itself. The method sets the RID of the
  record it is given; the model returns the record with its RID.
  \<open>pool.submit(self.table.merge)\<close> is counted in \<open>merge_submitted\<close>.
\<close>

definition choose_tail_page :: "Config \<Rightarrow> int \<Rightarrow> Database \<Rightarrow> py_error + (int \<times> Database)" where
  "choose_tail_page cfg base_page_range_num db =
     bind_err (Bufferpool_get_highest_tail_page_num base_page_range_num db) (\<lambda>tail_page_num.
     bind_err (if tail_page_num = MAX_BASE_PAGES - 1 then Inr (False, db)
               else Bufferpool_page_has_capacity cfg base_page_range_num tail_page_num db)
       (\<lambda>(cap, db1).
         if tail_page_num = MAX_BASE_PAGES - 1 \<or> \<not> cap
         then bind_err (Bufferpool_insert_tail_page cfg base_page_range_num db1)
                (\<lambda>(_, db2). Inr (tail_page_num + 1, db2))
         else Inr (tail_page_num, db1)))"

definition reserve_offset :: "nat list \<Rightarrow> Database \<Rightarrow> py_error + (int \<times> Database)" where
  "reserve_offset page db =
     bind_err (py_index page 0) (\<lambda>c0.
       Inr (num_records (heap db ! c0), fold incr_num_records page db))"

definition bump_num_updates :: "Config \<Rightarrow> int \<Rightarrow> int \<Rightarrow> Database \<Rightarrow> py_error + (int \<times> Database)" where
  "bump_num_updates cfg base_page_range_num base_page_num db =
     bind_err (Bufferpool_get_num_updates cfg base_page_range_num base_page_num db)
       (\<lambda>(n, db1).
     bind_err (Bufferpool_set_num_updates cfg base_page_range_num base_page_num (n + 1) db1)
       (\<lambda>db2. Inr (n + 1, db2)))"

definition merge_check :: "Config \<Rightarrow> int \<Rightarrow> int \<Rightarrow> int \<Rightarrow> Database \<Rightarrow> py_error + Database" where
  "merge_check cfg n base_page_range_num base_page_num db =
     (if n > 0
      then if MERGE_CONDITION cfg = 0 then Inl ZeroDivisionError
           else if n mod MERGE_CONDITION cfg = 0
           then bind_err (Bufferpool_page_has_capacity cfg base_page_range_num base_page_num db)
                  (\<lambda>(cap, db1).
                    if \<not> cap
                    then (let db2 = Table_add_to_merge_queue (base_page_range_num, base_page_num) db1
                          in Inr (db2\<lparr>table := (table db2)
                                        \<lparr>merge_submitted := merge_submitted (table db2) + 1\<rparr>\<rparr>))
                    else Inr db1)
           else Inr db
      else Inr db)"

definition Query_insert_to_tail_page ::
  "Config \<Rightarrow> int \<Rightarrow> int list \<Rightarrow> Record \<Rightarrow> Database \<Rightarrow> py_error + (Record \<times> Database)" where
  "Query_insert_to_tail_page cfg base_rid cols updated_record0 db =
     bind_err (unpack_location (Table_use_page_directory_r base_rid db))
       (\<lambda>(base_page_range_num, base_page_num, base_offset).
     bind_err (Inr (Table_use_num_records ''p'' db)) (\<lambda>(new_rid, db1).
     bind_err (Inr (updated_record0\<lparr>rid := new_rid\<rparr>)) (\<lambda>updated_record.
     bind_err (choose_tail_page cfg base_page_range_num db1) (\<lambda>(tail_page_num, db3).
     bind_err (Bufferpool_get_page cfg base_page_range_num tail_page_num db3) (\<lambda>(tail_page, db4).
     bind_err (Bufferpool_pin_page tail_page db4) (\<lambda>db5.
     bind_err (reserve_offset tail_page db5) (\<lambda>(offset, db6).
     bind_err (bump_num_updates cfg base_page_range_num base_page_num db6) (\<lambda>(n, db8).
     bind_err (Page_write cfg tail_page updated_record offset db8) (\<lambda>db9.
     bind_err (Table_change_indirection cfg (rid updated_record) base_rid
                 (Table_use_page_directory_w (rid updated_record)
                    (base_page_range_num, tail_page_num, offset) db9)) (\<lambda>(_, db11).
     bind_err (Bufferpool_get_record_column_val cfg base_rid SCHEMA_ENCODING_COLUMN db11)
       (\<lambda>(old_schema, db12).
     bind_err (Table_update_schema_encoding cfg base_rid old_schema cols
                 (columns updated_record) db12) (\<lambda>(_, db13).
     bind_err (for_each (tail_index_step base_rid (columns updated_record))
                 (py_enumerate 0 cols) db13) (\<lambda>db14.
     bind_err (Bufferpool_unpin_page tail_page db14) (\<lambda>db15.
     bind_err (merge_check cfg n base_page_range_num base_page_num db15) (\<lambda>db16.
       Inr (updated_record, db16))))))))))))))))"

text \<open>The loop of \<open>update\<close> that lays the non-null arguments over a copy of the
  previous column values.\<close>

fun overlay_columns :: "(int \<times> int option) list \<Rightarrow> int list \<Rightarrow> py_error + int list" where
  "overlay_columns [] updated_cols = Inr updated_cols"
| "overlay_columns ((i, c) # rest) updated_cols =
     (case c of
        None \<Rightarrow> overlay_columns rest updated_cols
      | Some v \<Rightarrow>
          (case py_list_set updated_cols i v of
             Inl e \<Rightarrow> Inl e
           | Inr cols' \<Rightarrow> overlay_columns rest cols'))"

text \<open>The tail of \<open>update\<close>: the copy of the base record on a first update, then
  the tail record of the update itself.\<close>

definition update_append ::
  "Config \<Rightarrow> int \<Rightarrow> int \<Rightarrow> Record \<Rightarrow> int \<Rightarrow> int list \<Rightarrow> Database \<Rightarrow> py_error + Database" where
  "update_append cfg primary_key base_rid prev_record base_record_indirection updated_cols db =
     bind_err (Inr (Record_new (-1) primary_key updated_cols db cfg)) (\<lambda>(updated_record, db3).
     bind_err
       (if base_record_indirection = INDIRECTION_NULL cfg
        then bind_err (Inr (Record_new (-1) primary_key (columns prev_record) db3 cfg))
               (\<lambda>(base_copy0, db4).
             bind_err (Query_insert_to_tail_page cfg base_rid []
                         (base_copy0\<lparr>indirection := base_rid\<rparr>) db4) (\<lambda>(base_copy, db5).
               Inr (updated_record\<lparr>indirection := rid base_copy\<rparr>, db5)))
        else Inr (updated_record\<lparr>indirection := rid prev_record\<rparr>, db3))
       (\<lambda>(updated_record1, db6).
     bind_err (Query_insert_to_tail_page cfg base_rid (columns prev_record) updated_record1 db6)
       (\<lambda>(_, db7). Inr db7)))"

definition Query_update ::
  "Config \<Rightarrow> int \<Rightarrow> int option list \<Rightarrow> Database \<Rightarrow> py_error + (bool \<times> Database)" where
  "Query_update cfg primary_key cols db =
     (if length (filter (\<lambda>c. c = None) cols) = length cols then Inr (True, db)
      else
        bind_err (Index_locate (DATA_COL_START + table_key (table db)) primary_key db) (\<lambda>rids.
          case rids of
            None \<Rightarrow> Inr (True, db)
          | Some rid_list \<Rightarrow>
              bind_err (py_index cols (table_key (table db))) (\<lambda>new_key.
              bind_err (if new_key \<noteq> None \<and> new_key \<noteq> Some primary_key
                        then Index_locate (DATA_COL_START + table_key (table db)) (the new_key) db
                        else Inr None) (\<lambda>clash.
                if clash \<noteq> None then Inr (False, db)
                else
                  bind_err (py_index rid_list 0) (\<lambda>base_rid.
                  bind_err (Table_get_latest_record cfg base_rid db) (\<lambda>(prev, db1).
                  bind_err (Bufferpool_get_record_column_val cfg base_rid INDIRECTION_COLUMN db1)
                    (\<lambda>(base_record_indirection, db2).
                    case prev of
                      None \<Rightarrow> Inl AttributeError
                    | Some prev_record \<Rightarrow>
                        bind_err (overlay_columns (py_enumerate 0 cols) (columns prev_record))
                          (\<lambda>updated_cols.
                        bind_err (update_append cfg primary_key base_rid prev_record
                                    base_record_indirection updated_cols db2)
                          (\<lambda>db7. Inr (True, db7))))))))))"

text \<open>The projection loop of \<open>select_version\<close>:
  \<open>for i, num in enumerate(projected_columns_index)\<close>.\<close>

fun project_columns :: "(int \<times> int) list \<Rightarrow> int list \<Rightarrow> py_error + int list" where
  "project_columns [] cols = Inr []"
| "project_columns ((i, num) # rest) cols =
     (if num = 1
      then (case py_index cols i of
              Inl e \<Rightarrow> Inl e
            | Inr v \<Rightarrow> (case project_columns rest cols of
                          Inl e \<Rightarrow> Inl e | Inr vs \<Rightarrow> Inr (v # vs)))
      else project_columns rest cols)"

definition project_record :: "int list \<Rightarrow> Record \<Rightarrow> py_error + Record" where
  "project_record projected_columns_index r =
     bind_err (project_columns (py_enumerate 0 projected_columns_index) (columns r))
       (\<lambda>column_return. Inr (r\<lparr>columns := column_return\<rparr>))"

text \<open>The scan branch: \<open>r.columns\<close> raises on a \<open>None\<close> among the scanned
  records.\<close>

fun project_scanned :: "int list \<Rightarrow> Record option list \<Rightarrow> py_error + Record list" where
  "project_scanned proj [] = Inr []"
| "project_scanned proj (r # rest) =
     (case r of
        None \<Rightarrow> Inl AttributeError
      | Some record \<Rightarrow>
          (case project_record proj record of
             Inl e \<Rightarrow> Inl e
           | Inr pr \<Rightarrow> (case project_scanned proj rest of
                          Inl e \<Rightarrow> Inl e | Inr prs \<Rightarrow> Inr (pr # prs))))"

text \<open>The index branch: the body of \<open>for rid in rids\<close>.\<close>

definition select_rid ::
  "Config \<Rightarrow> int list \<Rightarrow> int \<Rightarrow> int \<Rightarrow> Database \<Rightarrow> py_error + (Record list \<times> Database)" where
  "select_rid cfg proj relative_version r db =
     bind_err (Table_get_record_version cfg r relative_version db) (\<lambda>(record, db1).
       case record of
         None \<Rightarrow> Inr ([], db1)
       | Some rc \<Rightarrow> bind_err (project_record proj rc) (\<lambda>pr. Inr ([pr], db1)))"

definition select_by_index ::
  "Config \<Rightarrow> int \<Rightarrow> int \<Rightarrow> int list \<Rightarrow> int \<Rightarrow> Database \<Rightarrow> py_error + (Record list \<times> Database)" where
  "select_by_index cfg search_key search_key_index proj relative_version db =
     bind_err (py_index (indices (table db)) (search_key_index + DATA_COL_START)) (\<lambda>ix.
       case ix of
         None \<Rightarrow> Inl AttributeError
       | Some d \<Rightarrow>
           (case map_of d search_key of
              None \<Rightarrow> Inr ([], db)
            | Some rids \<Rightarrow>
                bind_err (for_collect (select_rid cfg proj relative_version) rids db)
                  (\<lambda>(found, db1). Inr (concat found, db1))))"

definition Query_select_version ::
  "Config \<Rightarrow> int \<Rightarrow> int \<Rightarrow> int list \<Rightarrow> int \<Rightarrow> Database \<Rightarrow> py_error + (Record list \<times> Database)" where
  "Query_select_version cfg search_key search_key_index proj relative_version db =
     bind_err (py_index (indices (table db)) (search_key_index + DATA_COL_START)) (\<lambda>ix.
       if ix = None
       then if CREATE_INDICES_CONDITION cfg = 0 then Inl ZeroDivisionError
            else if table_num_records (table db) mod CREATE_INDICES_CONDITION cfg = 0
            then bind_err (Index_create_index cfg (search_key_index + DATA_COL_START) db) (\<lambda>db1.
                   select_by_index cfg search_key search_key_index proj relative_version db1)
            else bind_err (Table_scan cfg search_key (search_key_index + DATA_COL_START)
                             relative_version db) (\<lambda>(records, db1).
                 bind_err (project_scanned proj records) (\<lambda>res. Inr (res, db1)))
       else select_by_index cfg search_key search_key_index proj relative_version db)"

definition Query_select ::
  "Config \<Rightarrow> int \<Rightarrow> int \<Rightarrow> int list \<Rightarrow> Database \<Rightarrow> py_error + (Record list \<times> Database)" where
  "Query_select cfg search_key search_key_index proj db =
     Query_select_version cfg search_key search_key_index proj 0 db"

text \<open>\<open>sum_version\<close>: the loop over the keys of the range carries the total and the
  number of records found.\<close>

definition sum_key ::
  "Config \<Rightarrow> int \<Rightarrow> int \<Rightarrow> int \<Rightarrow> int \<times> int \<times> Database \<Rightarrow> py_error + (int \<times> int \<times> Database)" where
  "sum_key cfg aggregate_column_index relative_version k acc =
     (case acc of (tot, found_records, db) \<Rightarrow>
        bind_err (py_index (indices (table db)) (DATA_COL_START + table_key (table db))) (\<lambda>ix.
          case ix of
            None \<Rightarrow> Inl AttributeError
          | Some d \<Rightarrow>
              (case map_of d k of
                 None \<Rightarrow> Inr (tot, found_records, db)
               | Some rs \<Rightarrow>
                   bind_err (py_index rs 0) (\<lambda>r.
                   bind_err (Table_get_record_column_version cfg r relative_version
                               (aggregate_column_index + DATA_COL_START) db) (\<lambda>(v, db1).
                     case v of
                       None \<Rightarrow> Inl TypeError
                     | Some x \<Rightarrow> Inr (tot + x, found_records + 1, db1))))))"

definition Query_sum_version ::
  "Config \<Rightarrow> int \<Rightarrow> int \<Rightarrow> int \<Rightarrow> int \<Rightarrow> Database \<Rightarrow> py_error + (query_result \<times> Database)" where
  "Query_sum_version cfg start_range end_range aggregate_column_index relative_version db =
     bind_err (for_each (sum_key cfg aggregate_column_index relative_version)
                 (py_range2 start_range (end_range + 1)) (0, 0, db)) (\<lambda>(tot, found_records, db1).
       if found_records = 0 then Inr (RBool False, db1) else Inr (RInt tot, db1))"

definition Query_sum ::
  "Config \<Rightarrow> int \<Rightarrow> int \<Rightarrow> int \<Rightarrow> Database \<Rightarrow> py_error + (query_result \<times> Database)" where
  "Query_sum cfg start_range end_range aggregate_column_index db =
     Query_sum_version cfg start_range end_range aggregate_column_index 0 db"

definition Query_increment ::
  "Config \<Rightarrow> int \<Rightarrow> int \<Rightarrow> Database \<Rightarrow> py_error + (bool \<times> Database)" where
  "Query_increment cfg k column db =
     bind_err (Query_select cfg k (table_key (table db))
                 (replicate (nat (num_columns (table db))) 1) db) (\<lambda>(rs, db1).
     bind_err (py_index rs 0) (\<lambda>r.
     bind_err (py_index (columns r) column) (\<lambda>v.
     bind_err (py_list_set (replicate (nat (num_columns (table db1))) None) column (Some (v + 1)))
       (\<lambda>updated_columns. Query_update cfg k updated_columns db1))))"

text \<open>The index-maintenance loop at the end of \<open>insert\<close>.\<close>

definition insert_index_step :: "int \<Rightarrow> int \<times> int \<Rightarrow> Database \<Rightarrow> py_error + Database" where
  "insert_index_step new_rid ic db =
     (case ic of (i, col) \<Rightarrow>
        bind_err (Index_is_indexed (i + DATA_COL_START) db) (\<lambda>ixd.
          if ixd then Index_add (i + DATA_COL_START) col new_rid db else Inr db))"

text \<open>\<open>insert\<close>: a transaction passes the RID it locked as one more argument after
  the column values. The choice of the page range and base page, and the rest of the
  method once the RID is known, are \<open>insert_choose_page\<close> and \<open>insert_record\<close>.\<close>

definition insert_choose_page ::
  "Config \<Rightarrow> Record \<Rightarrow> Database \<Rightarrow> py_error + (int \<times> int \<times> Database)" where
  "insert_choose_page cfg record db2 =
     (if fst (Table_use_num_page_ranges ''r'' db2) = 0
      then bind_err (Bufferpool_create_page_range cfg db2) (\<lambda>(page_range_num, db3).
           bind_err (Bufferpool_insert_base_page cfg page_range_num db3) (\<lambda>(_, db4).
           bind_err (Index_create_index cfg (DATA_COL_START + table_key (table db4))
                       (Table_use_page_directory_w (rid record) (page_range_num, 0, 0) db4))
             (\<lambda>db5. Inr (page_range_num, 0, db5))))
      else
        bind_err (Inr (fst (Table_use_num_page_ranges ''r'' db2) - 1)) (\<lambda>page_range_num0.
        bind_err (Bufferpool_page_range_has_capacity cfg page_range_num0 db2) (\<lambda>(rcap, db3).
        bind_err (if \<not> rcap
                  then bind_err (Bufferpool_create_page_range cfg db3) (\<lambda>(n, db4).
                       bind_err (Bufferpool_insert_base_page cfg n db4) (\<lambda>(_, db5).
                         Inr (n, db5)))
                  else Inr (page_range_num0, db3)) (\<lambda>(page_range_num, db5).
        bind_err (Bufferpool_get_highest_base_page_num page_range_num db5) (\<lambda>bp_num0.
        bind_err (Bufferpool_get_physical_page cfg page_range_num bp_num0 0 db5) (\<lambda>(_, db6).
        bind_err (Bufferpool_page_has_capacity cfg page_range_num bp_num0 db6) (\<lambda>(pcap, db7).
          if \<not> pcap
          then bind_err (Bufferpool_insert_base_page cfg page_range_num db7) (\<lambda>(_, db8).
                 Inr (page_range_num, bp_num0 + 1, db8))
          else Inr (page_range_num, bp_num0, db7))))))))"

definition insert_record ::
  "Config \<Rightarrow> int \<Rightarrow> int list \<Rightarrow> Database \<Rightarrow> py_error + (bool \<times> Database)" where
  "insert_record cfg new_rid cols db1 =
     bind_err (py_index cols 0) (\<lambda>c0.
     bind_err (Inr (Record_new new_rid c0 cols db1 cfg)) (\<lambda>(record, db2).
     bind_err (insert_choose_page cfg record db2) (\<lambda>(page_range_num, bp_num, db9).
     bind_err (Bufferpool_get_page cfg page_range_num bp_num db9) (\<lambda>(base_page, db10).
     bind_err (Bufferpool_pin_page base_page db10) (\<lambda>db11.
     bind_err (reserve_offset base_page db11) (\<lambda>(offset, db12).
     bind_err (Page_write cfg base_page record offset db12) (\<lambda>db13.
     bind_err (for_each (insert_index_step (rid record)) (py_enumerate 0 cols)
                 (Table_use_page_directory_w (rid record) (page_range_num, bp_num, offset) db13))
       (\<lambda>db14.
     bind_err (Bufferpool_unpin_page base_page db14) (\<lambda>db15.
       Inr (True, db15))))))))))"

definition Query_insert :: "Config \<Rightarrow> int list \<Rightarrow> Database \<Rightarrow> py_error + (bool \<times> Database)" where
  "Query_insert cfg cols0 db =
     bind_err (Index_is_indexed (DATA_COL_START + table_key (table db)) db) (\<lambda>ixd.
     bind_err (if ixd
               then bind_err (py_index cols0 (table_key (table db))) (\<lambda>inserted_primary_key.
                      Index_locate (DATA_COL_START + table_key (table db)) inserted_primary_key db)
               else Inr None) (\<lambda>rids.
       if rids \<noteq> None then Inr (False, db)
       else if int (length cols0) > num_columns (table db)
       then insert_record cfg (last cols0) (butlast cols0) db
       else (case Table_use_num_records ''p'' db of
               (n, db1) \<Rightarrow> insert_record cfg n cols0 db1)))"

text \<open>The \<open>while\<close> loop of \<open>delete\<close>: it need not end (a \<open>None\<close> from
  \<open>delete_record\<close> is neither null nor the RID, and feeds the next round), so its
  result is an option, \<open>None\<close> for a loop that runs forever.\<close>

partial_function (option) delete_chain ::
  "Config \<Rightarrow> int \<Rightarrow> int option \<Rightarrow> Database \<Rightarrow> (py_error + Database) option" where
  "delete_chain cfg r indirection_val db =
     (if indirection_val \<noteq> Some (INDIRECTION_NULL cfg) \<and> indirection_val \<noteq> Some r
      then (case indirection_val of
              None \<Rightarrow> delete_chain cfg r None db
            | Some i \<Rightarrow>
                (case Table_delete_record cfg i db of
                   Inl e \<Rightarrow> Some (Inl e)
                 | Inr (v, db1) \<Rightarrow> delete_chain cfg r v db1))
      else Some (Inr db))"

declare delete_chain.simps [code]

text \<open>\<open>delete\<close> up to its loop: \<open>None\<close> when the key is not in the index (the
  method returns \<open>False\<close>), else the base RID, the latest record, and what
  \<open>delete_record\<close> returned for the base RID.\<close>

definition delete_prepare ::
  "Config \<Rightarrow> int \<Rightarrow> Database
     \<Rightarrow> py_error + ((int \<times> Record option \<times> int option) option \<times> Database)" where
  "delete_prepare cfg primary_key db =
     bind_err (Index_is_indexed (DATA_COL_START + table_key (table db)) db) (\<lambda>ixd.
     bind_err (if \<not> ixd then Index_create_index cfg (DATA_COL_START + table_key (table db)) db
               else Inr db) (\<lambda>db1.
     bind_err (Index_locate (DATA_COL_START + table_key (table db1)) primary_key db1) (\<lambda>rids.
       case rids of
         None \<Rightarrow> Inr (None, db1)
       | Some rid_list \<Rightarrow>
           bind_err (py_index rid_list 0) (\<lambda>r.
           bind_err (Table_get_latest_record cfg r db1) (\<lambda>(latest_record, db2).
           bind_err (Table_delete_record cfg r db2) (\<lambda>(indirection_val, db3).
             Inr (Some (r, latest_record, indirection_val), db3)))))))"

definition Query_delete ::
  "Config \<Rightarrow> int \<Rightarrow> Database \<Rightarrow> (py_error + (bool \<times> Database)) option" where
  "Query_delete cfg primary_key db =
     (case delete_prepare cfg primary_key db of
        Inl e \<Rightarrow> Some (Inl e)
      | Inr (None, db1) \<Rightarrow> Some (Inr (False, db1))
      | Inr (Some (r, latest_record, indirection_val), db3) \<Rightarrow>
          (case delete_chain cfg r indirection_val db3 of
             None \<Rightarrow> None
           | Some (Inl e) \<Rightarrow> Some (Inl e)
           | Some (Inr db4) \<Rightarrow>
               (case latest_record of
                  None \<Rightarrow> Some (Inl AttributeError)
                | Some lr \<Rightarrow>
                    (case Index_delete_index (Record_to_array lr) r db4 of
                       Inl e \<Rightarrow> Some (Inl e)
                     | Inr db5 \<Rightarrow> Some (Inr (True, db5))))))"

section \<open>transaction.py\<close>

text \<open>
  A transaction holds bound methods of a \<open>Query\<close> object with their arguments. A query
  is one of the eight methods with the arguments of its signature; \<open>query_name\<close> is its
  \<open>__name__\<close>. The constants of \<open>config.py\<close> that index the argument tuple
  (\<open>SELECT_SEARCH_KEY_ARG\<close>, \<open>SUM_START_RANGE_ARG\<close>, \<open>UPDATE_PRIMARY_KEY_ARG\<close>,
  \<dots>) are taken to name the positions the signatures give these arguments.
\<close>

datatype query =
    QDelete int
  | QInsert "int list"
  | QSelect int int "int list"
  | QSelectVersion int int "int list" int
  | QUpdate int "int option list"
  | QSum int int int
  | QSumVersion int int int int
  | QIncrement int int

fun query_name :: "query \<Rightarrow> string" where
  "query_name (QDelete _) = ''delete''"
| "query_name (QInsert _) = ''insert''"
| "query_name (QSelect _ _ _) = ''select''"
| "query_name (QSelectVersion _ _ _ _) = ''select_version''"
| "query_name (QUpdate _ _) = ''update''"
| "query_name (QSum _ _ _) = ''sum''"
| "query_name (QSumVersion _ _ _ _) = ''sum_version''"
| "query_name (QIncrement _ _) = ''increment''"

text \<open>\<open>pattern in text\<close> on strings.\<close>

fun starts_with :: "'a list \<Rightarrow> 'a list \<Rightarrow> bool" where
  "starts_with [] ys = True"
| "starts_with (x # xs) [] = False"
| "starts_with (x # xs) (y # ys) = (x = y \<and> starts_with xs ys)"

fun py_in :: "'a list \<Rightarrow> 'a list \<Rightarrow> bool" where
  "py_in pat [] = (pat = [])"
| "py_in pat (y # ys) = (starts_with pat (y # ys) \<or> py_in pat ys)"

record Transaction =
  queries :: "query list"
  txn_id :: "int option"

definition Transaction_init :: Transaction where
  "Transaction_init = \<lparr>queries = [], txn_id = None\<rparr>"

definition Transaction_add_query :: "query \<Rightarrow> Transaction \<Rightarrow> Database \<Rightarrow> Transaction \<times> Database" where
  "Transaction_add_query q t db =
     (if txn_id t = None
      then (case Table_use_num_transactions ''w'' db of
              (n, db1) \<Rightarrow> (t\<lparr>queries := queries t @ [q], txn_id := Some n\<rparr>, db1))
      else (t\<lparr>queries := queries t @ [q]\<rparr>, db))"

text \<open>What the lock-acquiring helpers return: \<open>True\<close>, \<open>False\<close>, or -1 for a violated
  integrity constraint.\<close>

datatype lock_result = LockTrue | LockFalse | LockViolation

definition with_lock_manager :: "(int option LockManager \<Rightarrow> bool \<times> int option LockManager)
    \<Rightarrow> Database \<Rightarrow> bool \<times> Database" where
  "with_lock_manager f db =
     (case f (lock_manager (table db)) of
        (ok, lm) \<Rightarrow> (ok, db\<lparr>table := (table db)\<lparr>lock_manager := lm\<rparr>\<rparr>))"

text \<open>The shared request both read helpers end with: no RIDs (-1) is a success.\<close>

definition request_shared :: "int option \<Rightarrow> int list option \<Rightarrow> Database \<Rightarrow> lock_result \<times> Database" where
  "request_shared tid rids db =
     (case rids of
        None \<Rightarrow> (LockTrue, db)
      | Some rs \<Rightarrow>
          (case with_lock_manager (acquire_shared_lock rs tid) db of
             (ok, db1) \<Rightarrow> (if \<not> ok then LockFalse else LockTrue, db1)))"

definition request_exclusive :: "int option \<Rightarrow> int list option \<Rightarrow> Database \<Rightarrow> lock_result \<times> Database" where
  "request_exclusive tid rids db =
     (case rids of
        None \<Rightarrow> (LockTrue, db)
      | Some rs \<Rightarrow>
          (case with_lock_manager (acquire_exclusive_lock rs tid) db of
             (ok, db1) \<Rightarrow> (if \<not> ok then LockFalse else LockTrue, db1)))"

definition Transaction_acquire_lock_for_select ::
  "int option \<Rightarrow> int \<Rightarrow> int \<Rightarrow> Database \<Rightarrow> py_error + (lock_result \<times> Database)" where
  "Transaction_acquire_lock_for_select tid search_key search_column db =
     bind_err (Index_is_indexed (search_column + DATA_COL_START) db) (\<lambda>ixd.
     bind_err (if ixd then Index_locate (search_column + DATA_COL_START) search_key db
               else Index_get_all_base_rids db) (\<lambda>rids.
       Inr (request_shared tid rids db)))"

definition Transaction_acquire_lock_for_sum ::
  "int option \<Rightarrow> int \<Rightarrow> int \<Rightarrow> Database \<Rightarrow> py_error + (lock_result \<times> Database)" where
  "Transaction_acquire_lock_for_sum tid start end db =
     bind_err (Index_locate_range start end (table_key (table db) + DATA_COL_START) db) (\<lambda>rids.
       Inr (request_shared tid rids db))"

text \<open>\<open>__acquire_lock_for_insert\<close> appends the RID it locked to the arguments of the
  query; the model returns the new argument list.\<close>

definition Transaction_acquire_lock_for_insert ::
  "int option \<Rightarrow> int list \<Rightarrow> Database \<Rightarrow> py_error + (lock_result \<times> int list \<times> Database)" where
  "Transaction_acquire_lock_for_insert tid args db =
     bind_err (Index_is_indexed (DATA_COL_START + table_key (table db)) db) (\<lambda>ixd.
     bind_err (if ixd
               then bind_err (py_index args (table_key (table db))) (\<lambda>inserted_primary_key.
                      Index_locate (DATA_COL_START + table_key (table db)) inserted_primary_key db)
               else Inr None) (\<lambda>rids.
       if rids \<noteq> None then Inr (LockViolation, args, db)
       else
         (case Table_use_num_records ''p'' db of
            (new_rid, db1) \<Rightarrow>
              (case with_lock_manager (acquire_exclusive_lock [new_rid] tid) db1 of
                 (ok, db2) \<Rightarrow>
                   if \<not> ok then Inr (LockFalse, args, db2)
                   else Inr (LockTrue, args @ [new_rid], db2)))))"

definition Transaction_acquire_lock_for_update ::
  "int option \<Rightarrow> int \<Rightarrow> int option list \<Rightarrow> Database \<Rightarrow> py_error + (lock_result \<times> Database)" where
  "Transaction_acquire_lock_for_update tid primary_key cols db =
     bind_err (py_index cols (table_key (table db))) (\<lambda>updated_primary_key.
       if updated_primary_key \<noteq> None \<and> updated_primary_key \<noteq> Some primary_key
       then bind_err (Index_locate (DATA_COL_START + table_key (table db))
                        (the updated_primary_key) db) (\<lambda>r.
              if r \<noteq> None then Inr (LockViolation, db) else Inr (LockTrue, db))
       else bind_err (Index_locate (table_key (table db) + DATA_COL_START) primary_key db) (\<lambda>r.
              Inr (request_exclusive tid r db)))"

definition Transaction_acquire_lock_for_delete ::
  "int option \<Rightarrow> int \<Rightarrow> Database \<Rightarrow> py_error + (lock_result \<times> Database)" where
  "Transaction_acquire_lock_for_delete tid primary_key db =
     bind_err (Index_locate (table_key (table db) + DATA_COL_START) primary_key db) (\<lambda>r.
       Inr (request_exclusive tid r db))"

text \<open>One round of the loop of \<open>__acquire_all_locks\<close>: the branch is chosen by the
  substring tests on the method name, in the order of the source; a name that matches
  none takes no lock. The query comes back with the arguments the round left it.\<close>

definition acquire_locks_for ::
  "int option \<Rightarrow> query \<Rightarrow> Database \<Rightarrow> py_error + (lock_result \<times> query \<times> Database)" where
  "acquire_locks_for tid q db =
     (let operation = query_name q in
      if py_in ''select'' operation
      then (case q of
              QSelect k c _ \<Rightarrow>
                bind_err (Transaction_acquire_lock_for_select tid k c db) (\<lambda>(r, db1). Inr (r, q, db1))
            | QSelectVersion k c _ _ \<Rightarrow>
                bind_err (Transaction_acquire_lock_for_select tid k c db) (\<lambda>(r, db1). Inr (r, q, db1))
            | _ \<Rightarrow> Inl TypeError)
      else if py_in ''sum'' operation
      then (case q of
              QSum s e _ \<Rightarrow>
                bind_err (Transaction_acquire_lock_for_sum tid s e db) (\<lambda>(r, db1). Inr (r, q, db1))
            | QSumVersion s e _ _ \<Rightarrow>
                bind_err (Transaction_acquire_lock_for_sum tid s e db) (\<lambda>(r, db1). Inr (r, q, db1))
            | _ \<Rightarrow> Inl TypeError)
      else if py_in ''insert'' operation
      then (case q of
              QInsert args \<Rightarrow>
                bind_err (Transaction_acquire_lock_for_insert tid args db)
                  (\<lambda>(r, args', db1). Inr (r, QInsert args', db1))
            | _ \<Rightarrow> Inl TypeError)
      else if py_in ''update'' operation
      then (case q of
              QUpdate k cols \<Rightarrow>
                bind_err (Transaction_acquire_lock_for_update tid k cols db) (\<lambda>(r, db1). Inr (r, q, db1))
            | _ \<Rightarrow> Inl TypeError)
      else if py_in ''delete'' operation
      then (case q of
              QDelete k \<Rightarrow>
                bind_err (Transaction_acquire_lock_for_delete tid k db) (\<lambda>(r, db1). Inr (r, q, db1))
            | _ \<Rightarrow> Inl TypeError)
      else Inr (LockTrue, q, db))"

text \<open>\<open>__acquire_all_locks\<close>: the first round that does not return \<open>True\<close> ends the
  loop with its result. The queries come back as the rounds left them.\<close>

fun acquire_all_locks_loop ::
  "int option \<Rightarrow> query list \<Rightarrow> Database \<Rightarrow> py_error + (lock_result \<times> query list \<times> Database)" where
  "acquire_all_locks_loop tid [] db = Inr (LockTrue, [], db)"
| "acquire_all_locks_loop tid (q # qs) db =
     (case acquire_locks_for tid q db of
        Inl e \<Rightarrow> Inl e
      | Inr (r, q', db1) \<Rightarrow>
          if r = LockTrue
          then (case acquire_all_locks_loop tid qs db1 of
                  Inl e \<Rightarrow> Inl e
                | Inr (r', qs', db2) \<Rightarrow> Inr (r', q' # qs', db2))
          else Inr (r, q' # qs, db1))"

definition Transaction_acquire_all_locks ::
  "Transaction \<Rightarrow> Database \<Rightarrow> py_error + (lock_result \<times> Transaction \<times> Database)" where
  "Transaction_acquire_all_locks t db =
     bind_err (acquire_all_locks_loop (txn_id t) (queries t) db) (\<lambda>(r, qs, db1).
       Inr (r, t\<lparr>queries := qs\<rparr>, db1))"

text \<open>\<open>abort\<close> and \<open>commit\<close> both release the locks of the transaction.\<close>

definition release_locks_of :: "Transaction \<Rightarrow> Database \<Rightarrow> py_error + Database" where
  "release_locks_of t db =
     bind_err (release_held_locks (txn_id t) (lock_manager (table db))) (\<lambda>lm.
       Inr (db\<lparr>table := (table db)\<lparr>lock_manager := lm\<rparr>\<rparr>))"

definition Transaction_abort :: "Transaction \<Rightarrow> Database \<Rightarrow> py_error + (bool \<times> Database)" where
  "Transaction_abort t db = bind_err (release_locks_of t db) (\<lambda>db1. Inr (False, db1))"

definition Transaction_commit :: "Transaction \<Rightarrow> Database \<Rightarrow> py_error + (bool \<times> Database)" where
  "Transaction_commit t db = bind_err (release_locks_of t db) (\<lambda>db1. Inr (True, db1))"

text \<open>\<open>query(*args)\<close>. \<open>delete\<close> may loop forever, so the result is an option.\<close>

definition wrap_bool :: "py_error + (bool \<times> Database) \<Rightarrow> py_error + (query_result \<times> Database)" where
  "wrap_bool m = bind_err m (\<lambda>(b, db). Inr (RBool b, db))"

definition wrap_records ::
  "py_error + (Record list \<times> Database) \<Rightarrow> py_error + (query_result \<times> Database)" where
  "wrap_records m = bind_err m (\<lambda>(rs, db). Inr (RRecords rs, db))"

definition exec_query ::
  "Config \<Rightarrow> query \<Rightarrow> Database \<Rightarrow> (py_error + (query_result \<times> Database)) option" where
  "exec_query cfg q db =
     (case q of
        QDelete k \<Rightarrow> map_option wrap_bool (Query_delete cfg k db)
      | QInsert args \<Rightarrow> Some (wrap_bool (Query_insert cfg args db))
      | QSelect k c proj \<Rightarrow> Some (wrap_records (Query_select cfg k c proj db))
      | QSelectVersion k c proj v \<Rightarrow> Some (wrap_records (Query_select_version cfg k c proj v db))
      | QUpdate k cols \<Rightarrow> Some (wrap_bool (Query_update cfg k cols db))
      | QSum s e c \<Rightarrow> Some (Query_sum cfg s e c db)
      | QSumVersion s e c v \<Rightarrow> Some (Query_sum_version cfg s e c v db)
      | QIncrement k c \<Rightarrow> Some (wrap_bool (Query_increment cfg k c db)))"

text \<open>The execute loop of \<open>run\<close>: \<open>False\<close> with the state at the first query whose
  result is not truthy, \<open>True\<close> when every query returned a truthy result.\<close>

fun run_queries ::
  "Config \<Rightarrow> query list \<Rightarrow> Database \<Rightarrow> (py_error + (bool \<times> Database)) option" where
  "run_queries cfg [] db = Some (Inr (True, db))"
| "run_queries cfg (q # qs) db =
     (case exec_query cfg q db of
        None \<Rightarrow> None
      | Some (Inl e) \<Rightarrow> Some (Inl e)
      | Some (Inr (res, db1)) \<Rightarrow>
          if \<not> truthy res then Some (Inr (False, db1)) else run_queries cfg qs db1)"

text \<open>\<open>run\<close> returns \<open>True\<close>, \<open>False\<close> or -1.\<close>

definition Transaction_run ::
  "Config \<Rightarrow> Transaction \<Rightarrow> Database
     \<Rightarrow> (py_error + (query_result \<times> Transaction \<times> Database)) option" where
  "Transaction_run cfg t db =
     (case Transaction_acquire_all_locks t db of
        Inl e \<Rightarrow> Some (Inl e)
      | Inr (got_all_locks, t1, db1) \<Rightarrow>
          if got_all_locks = LockFalse
          then Some (bind_err (Transaction_abort t1 db1) (\<lambda>(b, db2). Inr (RBool b, t1, db2)))
          else if got_all_locks = LockViolation
          then Some (bind_err (release_locks_of t1 db1) (\<lambda>db2. Inr (RInt (-1), t1, db2)))
          else
            (case run_queries cfg (queries t1) db1 of
               None \<Rightarrow> None
             | Some (Inl e) \<Rightarrow> Some (Inl e)
             | Some (Inr (all_ok, db2)) \<Rightarrow>
                 if \<not> all_ok
                 then Some (bind_err (Transaction_abort t1 db2) (\<lambda>(_, db3).
                              Inr (RInt (-1), t1, db3)))
                 else Some (bind_err (Transaction_commit t1 db2) (\<lambda>(b, db3).
                              Inr (RBool b, t1, db3)))))"

section \<open>transaction\_worker.py\<close>

text \<open>The thread that \<open>run\<close> starts and \<open>join\<close> waits for executes \<open>__run\<close>; the
  model runs it to its end. The \<open>while True\<close> loop retries a transaction for as long
  as \<open>run\<close> returns a falsy value other than -1, which may be forever.\<close>

record TransactionWorker =
  stats :: "bool list"
  transactions :: "Transaction list"
  result :: int

definition TransactionWorker_init :: "Transaction list \<Rightarrow> TransactionWorker" where
  "TransactionWorker_init ts = \<lparr>stats = [], transactions = ts, result = 0\<rparr>"

definition TransactionWorker_add_transaction :: "Transaction \<Rightarrow> TransactionWorker \<Rightarrow> TransactionWorker" where
  "TransactionWorker_add_transaction t w = w\<lparr>transactions := transactions w @ [t]\<rparr>"

partial_function (option) worker_retry ::
  "Config \<Rightarrow> Transaction \<Rightarrow> bool list \<Rightarrow> Database
     \<Rightarrow> (py_error + (Transaction \<times> bool list \<times> Database)) option" where
  "worker_retry cfg t st db =
     (case Transaction_run cfg t db of
        None \<Rightarrow> None
      | Some (Inl e) \<Rightarrow> Some (Inl e)
      | Some (Inr (val, t1, db1)) \<Rightarrow>
          if truthy val then Some (Inr (t1, st, db1))
          else if val = RInt (-1) then Some (Inr (t1, st @ [False], db1))
          else worker_retry cfg t1 (st @ [False]) db1)"

declare worker_retry.simps [code]

fun worker_loop ::
  "Config \<Rightarrow> Transaction list \<Rightarrow> bool list \<Rightarrow> Database
     \<Rightarrow> (py_error + (Transaction list \<times> bool list \<times> Database)) option" where
  "worker_loop cfg [] st db = Some (Inr ([], st, db))"
| "worker_loop cfg (t # ts) st db =
     (case worker_retry cfg t st db of
        None \<Rightarrow> None
      | Some (Inl e) \<Rightarrow> Some (Inl e)
      | Some (Inr (t1, st1, db1)) \<Rightarrow>
          (case worker_loop cfg ts (st1 @ [True]) db1 of
             None \<Rightarrow> None
           | Some (Inl e) \<Rightarrow> Some (Inl e)
           | Some (Inr (ts1, st2, db2)) \<Rightarrow> Some (Inr (t1 # ts1, st2, db2))))"

definition TransactionWorker_run ::
  "Config \<Rightarrow> TransactionWorker \<Rightarrow> Database \<Rightarrow> (py_error + (TransactionWorker \<times> Database)) option" where
  "TransactionWorker_run cfg w db =
     (case worker_loop cfg (transactions w) (stats w) db of
        None \<Rightarrow> None
      | Some (Inl e) \<Rightarrow> Some (Inl e)
      | Some (Inr (ts, st, db1)) \<Rightarrow>
          Some (Inr (w\<lparr>transactions := ts, stats := st,
                       result := int (length (filter (\<lambda>x. x) st))\<rparr>, db1)))"

section \<open>table.py: merge\<close>

text \<open>
  The state of the loops of \<open>__merge_helper\<close>: the database, \<open>num_updates\<close>,
  \<open>max_tid\<close>, and a log of the page numbers the tail-page loop passed to
  \<open>get_page_no_add\<close>, in the order of the calls. The log is not a variable of the
  source; it records which tail page each round read. \<open>updated_rids\<close> maps each RID of
  the base page to \<open>False\<close> and is never written again.
\<close>

record merge_state =
  m_db :: Database
  m_num_updates :: int
  m_max_tid :: int
  m_log :: "int list"

text \<open>The \<open>for j in range(DATA_COL_START, len(tail_page.columns))\<close> loop: it reads
  the tail column at the offset of the base record and writes the base copy there.\<close>

definition merge_copy_column ::
  "Config \<Rightarrow> nat list \<Rightarrow> nat list \<Rightarrow> int \<Rightarrow> int \<Rightarrow> Database \<Rightarrow> py_error + Database" where
  "merge_copy_column cfg tail_page base_page offset j db =
     bind_err (py_index tail_page j) (\<lambda>ta.
     bind_err (PhysicalPage_read_val cfg offset (heap db ! ta)) (\<lambda>latest_col_val.
     bind_err (py_index base_page j) (\<lambda>ba.
       page_change_val cfg ba latest_col_val offset db)))"

text \<open>One round of \<open>for i in range(len(tids) - 1, -1, -1)\<close>. \<open>locate(...)[0]\<close>
  raises \<open>TypeError\<close> when \<open>locate\<close> returned -1.\<close>

definition merge_tail_entry ::
  "Config \<Rightarrow> nat list \<Rightarrow> nat list \<Rightarrow> (int \<times> bool) list \<Rightarrow> int list \<Rightarrow> int
     \<Rightarrow> merge_state \<Rightarrow> py_error + merge_state" where
  "merge_tail_entry cfg tail_page base_page updated_rids tids i st =
     bind_err (py_index tids i) (\<lambda>tid.
     bind_err (py_index tail_page (table_key (table (m_db st)) + NUM_METADATA_COLS)) (\<lambda>ka.
     bind_err (PhysicalPage_read_val cfg i (heap (m_db st) ! ka)) (\<lambda>primary_key.
     bind_err (Index_locate (table_key (table (m_db st)) + NUM_METADATA_COLS) primary_key
                 (m_db st)) (\<lambda>located.
     bind_err (case located of None \<Rightarrow> Inl TypeError | Some rs \<Rightarrow> py_index rs 0) (\<lambda>base_rid.
       (let st1 = st\<lparr>m_max_tid := max tid (m_max_tid st)\<rparr> in
        if map_of updated_rids base_rid = None \<or> map_of updated_rids base_rid = Some True
        then Inr st1
        else
          bind_err (unpack_location (Table_use_page_directory_r base_rid (m_db st1)))
            (\<lambda>(pr_num, page_num, offset).
          bind_err (for_each (merge_copy_column cfg tail_page base_page offset)
                      (py_range2 DATA_COL_START (int (length tail_page))) (m_db st1)) (\<lambda>db1.
            Inr (st1\<lparr>m_db := db1, m_num_updates := m_num_updates st1 + 1\<rparr>)))))))))"

text \<open>
  The \<open>while current_tp_num >= MAX_BASE_PAGES\<close> loop. Each round fetches the tail page
  numbered \<open>max_tp_num\<close>, as the source does.
\<close>

function merge_tail_pages ::
  "Config \<Rightarrow> int \<Rightarrow> int \<Rightarrow> nat list \<Rightarrow> (int \<times> bool) list \<Rightarrow> int \<Rightarrow> merge_state
     \<Rightarrow> py_error + merge_state" where
  "merge_tail_pages cfg page_range_num max_tp_num base_page updated_rids current_tp_num st =
     (if current_tp_num \<ge> MAX_BASE_PAGES
      then
        (case Bufferpool_get_page_no_add cfg page_range_num max_tp_num (m_db st) of
           Inl e \<Rightarrow> Inl e
         | Inr (tail_page, db1) \<Rightarrow>
             (case Page_get_rids_in_page cfg tail_page db1 of
                Inl e \<Rightarrow> Inl e
              | Inr tids \<Rightarrow>
                  (case py_index tids 0 of
                     Inl e \<Rightarrow> Inl e
                   | Inr tid0 \<Rightarrow>
                       (case py_index base_page RID_COLUMN of
                          Inl e \<Rightarrow> Inl e
                        | Inr ra \<Rightarrow>
                            (let st1 = st\<lparr>m_db := db1, m_max_tid := max tid0 (m_max_tid st),
                                          m_log := m_log st @ [max_tp_num]\<rparr>
                             in if tid0 < tps (heap db1 ! ra) then Inr st1
                                else
                                  (case for_each
                                          (merge_tail_entry cfg tail_page base_page updated_rids tids)
                                          (rev (py_range (int (length tids)))) st1 of
                                     Inl e \<Rightarrow> Inl e
                                   | Inr st2 \<Rightarrow>
                                       (case py_index base_page 0 of
                                          Inl e \<Rightarrow> Inl e
                                        | Inr c0 \<Rightarrow>
                                            if m_num_updates st2 = num_records (heap (m_db st2) ! c0)
                                            then Inr st2
                                            else merge_tail_pages cfg page_range_num max_tp_num
                                                   base_page updated_rids (current_tp_num - 1)
                                                   st2)))))))
      else Inr st)"
  by pat_completeness auto
termination
  by (relation "measure (\<lambda>(cfg, pr, mx, bpg, ur, cur, st). nat (cur - MAX_BASE_PAGES + 1))") auto

text \<open>The end of \<open>__merge_helper\<close>: the new TPS and the write of the merged page.\<close>

definition merge_finish ::
  "Config \<Rightarrow> int \<Rightarrow> int \<Rightarrow> nat list \<Rightarrow> nat list \<Rightarrow> merge_state \<Rightarrow> py_error + merge_state" where
  "merge_finish cfg page_range_num base_page_num original_base_page base_page st =
     bind_err (py_index base_page RID_COLUMN) (\<lambda>ra.
     bind_err (if m_max_tid st > tps (heap (m_db st) ! ra)
               then bind_err (to_bytes_unsigned (COLUMN_SIZE cfg) (m_max_tid st)) (\<lambda>b.
                      Inr (heap_upd ra
                             (\<lambda>p. p\<lparr>data := py_slice_assign (data p) (TPS_START cfg) (TPS_END cfg) b,
                                     tps := m_max_tid st\<rparr>) (m_db st)))
               else Inr (m_db st)) (\<lambda>db1.
     bind_err (Bufferpool_write_page_to_disk page_range_num base_page_num base_page db1) (\<lambda>db2.
     bind_err (Bufferpool_unpin_page original_base_page db2) (\<lambda>db3.
       Inr (st\<lparr>m_db := db3\<rparr>)))))"

text \<open>\<open>__merge_helper\<close>; the result carries the log of the tail pages read.\<close>

definition Table_merge_helper ::
  "Config \<Rightarrow> int \<Rightarrow> int \<Rightarrow> Database \<Rightarrow> py_error + merge_state" where
  "Table_merge_helper cfg page_range_num base_page_num db =
     bind_err (Bufferpool_get_page_no_add cfg page_range_num base_page_num db)
       (\<lambda>(original_base_page, db1).
     bind_err (Bufferpool_pin_page original_base_page db1) (\<lambda>db2.
     bind_err (Page_create_copy cfg original_base_page db2) (\<lambda>(base_page, db3).
     bind_err (Page_get_rids_in_page cfg base_page db3) (\<lambda>rids.
     bind_err (Bufferpool_get_highest_tail_page_num page_range_num db3) (\<lambda>max_tp_num0.
     bind_err (Bufferpool_page_has_capacity cfg page_range_num max_tp_num0 db3) (\<lambda>(cap, db4).
       (let st0 = \<lparr>m_db = db4, m_num_updates = 0, m_max_tid = 0, m_log = []\<rparr>;
            max_tp_num = (if cap then max_tp_num0 - 1 else max_tp_num0)
        in if cap \<and> max_tp_num = MAX_BASE_PAGES - 1 then Inr st0
           else
             bind_err (merge_tail_pages cfg page_range_num max_tp_num base_page
                         (fold (\<lambda>r d. dict_set d r False) rids []) max_tp_num st0) (\<lambda>st1.
               merge_finish cfg page_range_num base_page_num original_base_page base_page
                 st1))))))))"

text \<open>\<open>merge\<close> drains the queue: \<open>while len(self.merge_queue) > 0\<close> takes the
  first entry, merges it and pops it. \<open>__merge_helper\<close> does not touch the queue, so
  the rounds are those of the queue at entry.\<close>

fun merge_drain :: "Config \<Rightarrow> (int \<times> int) list \<Rightarrow> Database \<Rightarrow> py_error + Database" where
  "merge_drain cfg [] db = Inr db"
| "merge_drain cfg (e # rest) db =
     (case Table_merge_helper cfg (fst e) (snd e) db of
        Inl err \<Rightarrow> Inl err
      | Inr st \<Rightarrow>
          merge_drain cfg rest
            ((m_db st)\<lparr>table := (table (m_db st))
                         \<lparr>merge_queue := tl (merge_queue (table (m_db st)))\<rparr>\<rparr>))"

definition Table_merge :: "Config \<Rightarrow> Database \<Rightarrow> py_error + Database" where
  "Table_merge cfg db = merge_drain cfg (merge_queue (table db)) db"

section \<open>Scenarios\<close>

text \<open>Unwrapping the state of a run that returned.\<close>

definition the_db :: "py_error + ('a \<times> Database) \<Rightarrow> Database" where
  "the_db m = (case m of Inr (_, db) \<Rightarrow> db | Inl _ \<Rightarrow> Database_init cfg_tiny 0 0 (\<lambda>_. 0))"

definition returned :: "py_error + 'a \<Rightarrow> bool" where
  "returned m = (case m of Inr _ \<Rightarrow> True | Inl _ \<Rightarrow> False)"

text \<open>A table of two columns keyed on the first, pages of two values: one record
  \<open>(1, 10)\<close> is inserted.\<close>

definition db_one_record :: "py_error + (bool \<times> Database)" where
  "db_one_record = Query_insert cfg_tiny [1, 10] (Database_init cfg_tiny 2 0 (\<lambda>_. 0))"

text \<open>The record is then updated three times; the four tail records (the copy of the
  base record and three updates) fill the tail pages 16 and 17.\<close>

definition db_three_updates :: "py_error + (bool \<times> Database)" where
  "db_three_updates =
     bind_err db_one_record (\<lambda>(_, db).
     bind_err (Query_update cfg_tiny 1 [None, Some 11] db) (\<lambda>(_, db1).
     bind_err (Query_update cfg_tiny 1 [None, Some 12] db1) (\<lambda>(_, db2).
       Query_update cfg_tiny 1 [None, Some 13] db2)))"

text \<open>A transaction that inserts a record with the primary key 1 again, and a worker
  that runs this transaction alone.\<close>

definition duplicate_insert_txn :: "Transaction \<times> Database" where
  "duplicate_insert_txn =
     Transaction_add_query (QInsert [1, 20]) Transaction_init (the_db db_one_record)"

text \<open>A transaction that selects the primary key 5, which no record has.\<close>

definition select_absent_txn :: "Transaction \<times> Database" where
  "select_absent_txn =
     Transaction_add_query (QSelect 5 0 [1, 1]) Transaction_init (the_db db_one_record)"

text \<open>A table of three columns with the records \<open>(1, 10, 20)\<close>, \<open>(2, 11, 21)\<close>,
  \<open>(3, 12, 22)\<close>, under a configuration whose \<open>CREATE_INDICES_CONDITION\<close> is 2.\<close>

definition cfg_index2 :: Config where
  "cfg_index2 = cfg_tiny\<lparr>CREATE_INDICES_CONDITION := 2\<rparr>"

definition db_three_records :: "Config \<Rightarrow> py_error + (bool \<times> Database)" where
  "db_three_records cfg =
     bind_err (Query_insert cfg [1, 10, 20] (Database_init cfg 3 0 (\<lambda>_. 0))) (\<lambda>(_, db).
     bind_err (Query_insert cfg [2, 11, 21] db) (\<lambda>(_, db1).
       Query_insert cfg [3, 12, 22] db1))"

section \<open>Proofs: lock manager\<close>

lemma remove_owned_filter: "remove_owned ls t = filter (\<lambda>l. snd l \<noteq> t) ls"
  by (induction ls) auto

lemma exclusive_scan_no_upgrade:
  "n \<noteq> 1 \<Longrightarrow> \<forall>l \<in> set ls. fst l = S \<Longrightarrow>
   exclusive_scan n ls t = (list_all (\<lambda>l. snd l = t) ls, ls)"
  by (induction ls) auto

lemma exclusive_scan_locks_ok:
  assumes "locks_ok ls"
  shows "exclusive_scan (length ls) ls t =
           (if list_all (\<lambda>l. snd l = t) ls then (True, [(X, t)]) else (False, ls))"
proof (cases "\<exists>t'. ls = [(X, t')]")
  case True
  then show ?thesis by auto
next
  case False
  with assms have allS: "\<forall>l \<in> set ls. fst l = S" and ne: "ls \<noteq> []"
    and d: "distinct (map snd ls)"
    by (auto simp: locks_ok_def)
  show ?thesis
  proof (cases "length ls = 1")
    case True
    then obtain l where "ls = [l]" by (cases ls) auto
    with allS show ?thesis by (cases l) auto
  next
    case False
    with ne obtain a b rest where ls: "ls = a # b # rest"
      by (cases ls; cases "tl ls") auto
    with d have "snd a \<noteq> snd b" by auto
    then have "\<not> list_all (\<lambda>l. snd l = t) ls" using ls by auto
    with exclusive_scan_no_upgrade[OF False allS, of t] show ?thesis by simp
  qed
qed

lemma owned_rids_upd:
  "owned_rids (lm\<lparr>locks := (locks lm)(key \<mapsto> ls')\<rparr>) t' =
     (if t' \<in> snd ` set ls' then insert key (owned_rids lm t') else owned_rids lm t' - {key})"
  by (auto simp: owned_rids_def)

lemma owned_rids_owners_irrelevant [simp]:
  "owned_rids (lm\<lparr>lock_owners := f\<rparr>) t = owned_rids lm t"
  by (simp add: owned_rids_def)

lemma owned_rids_add_lock_owner [simp]:
  "owned_rids (add_lock_owner key t lm) t' = owned_rids lm t'"
  by (simp add: add_lock_owner_def owned_rids_def split: option.splits)

lemma locks_add_lock_owner [simp]: "locks (add_lock_owner key t lm) = locks lm"
  by (simp add: add_lock_owner_def split: option.splits)

lemma lock_owners_add_lock_owner:
  "lock_owners (add_lock_owner key t lm) t' =
     (if t' = t then Some (case lock_owners lm t of None \<Rightarrow> [key] | Some ks \<Rightarrow> ks @ [key])
      else lock_owners lm t')"
  by (simp add: add_lock_owner_def split: option.splits)

text \<open>Replacing a RID's list by one with the same owners keeps the invariant.\<close>
lemma lm_inv_replace:
  assumes "lm_inv lm" "locks lm key = Some ls" "locks_ok ls'" "snd ` set ls' = snd ` set ls"
  shows "lm_inv (lm\<lparr>locks := (locks lm)(key \<mapsto> ls')\<rparr>)"
proof -
  have same: "owned_rids (lm\<lparr>locks := (locks lm)(key \<mapsto> ls')\<rparr>) t = owned_rids lm t" for t
    using assms(2,4) by (auto simp: owned_rids_def)
  show ?thesis
    using assms(1,3) unfolding lm_inv_def same by auto
qed

text \<open>Granting a new entry to a transaction with none on the RID keeps the invariant.\<close>
lemma lm_inv_grant:
  assumes inv: "lm_inv lm" and ok: "locks_ok ls'"
    and old: "snd ` set ls' = insert t (case locks lm key of None \<Rightarrow> {} | Some ls \<Rightarrow> snd ` set ls)"
    and fresh: "key \<notin> owned_rids lm t"
  shows "lm_inv (add_lock_owner key t (lm\<lparr>locks := (locks lm)(key \<mapsto> ls')\<rparr>))"
proof -
  let ?lm' = "lm\<lparr>locks := (locks lm)(key \<mapsto> ls')\<rparr>"
  have o_t: "owned_rids ?lm' t = insert key (owned_rids lm t)"
    using old by (simp add: owned_rids_upd)
  have o_other: "owned_rids ?lm' t' = owned_rids lm t'" if "t' \<noteq> t" for t'
    using old that by (auto simp: owned_rids_def split: option.splits)
  have l: "\<forall>k ls. locks (add_lock_owner key t ?lm') k = Some ls \<longrightarrow> locks_ok ls"
    using inv ok by (auto simp: lm_inv_def)
  have "case lock_owners (add_lock_owner key t ?lm') t' of
          None \<Rightarrow> owned_rids (add_lock_owner key t ?lm') t' = {}
        | Some ks \<Rightarrow> distinct ks \<and> set ks = owned_rids (add_lock_owner key t ?lm') t'" for t'
  proof (cases "t' = t")
    case True
    from inv have "case lock_owners lm t of None \<Rightarrow> owned_rids lm t = {}
        | Some ks \<Rightarrow> distinct ks \<and> set ks = owned_rids lm t"
      by (simp add: lm_inv_def)
    then show ?thesis using True o_t fresh
      by (auto simp: lock_owners_add_lock_owner split: option.splits)
  next
    case False
    from inv have "case lock_owners lm t' of None \<Rightarrow> owned_rids lm t' = {}
        | Some ks \<Rightarrow> distinct ks \<and> set ks = owned_rids lm t'"
      by (simp add: lm_inv_def)
    then show ?thesis using False o_other[OF False]
      by (simp add: lock_owners_add_lock_owner split: option.splits)
  qed
  with l show ?thesis unfolding lm_inv_def by blast
qed

lemma lm_inv_init: "lm_inv LockManager_init"
  by (simp add: lm_inv_def LockManager_init_def owned_rids_def)

lemma shared_scan_AlreadyHas: "shared_scan ls t = AlreadyHasLock \<Longrightarrow> t \<in> snd ` set ls"
  by (induction ls) (auto split: if_splits)

lemma shared_scan_Grant:
  "shared_scan ls t = GrantShared \<Longrightarrow> t \<notin> snd ` set ls \<and> (\<forall>l \<in> set ls. fst l \<noteq> X)"
  by (induction ls) (auto split: if_splits)

lemma not_X_is_S: "fst l \<noteq> X \<longleftrightarrow> fst l = S"
  by (cases "fst l") auto

lemma locks_ok_append_shared:
  assumes "locks_ok ls" "t \<notin> snd ` set ls" "\<forall>l \<in> set ls. fst l \<noteq> X"
  shows "locks_ok (ls @ [(S, t)])"
  using assms by (auto simp: locks_ok_def not_X_is_S)

lemma lm_inv_acquire_shared:
  "lm_inv lm \<Longrightarrow> lm_inv (snd (acquire_shared_lock keys t lm))"
proof (induction keys arbitrary: lm)
  case Nil
  then show ?case by simp
next
  case (Cons key keys)
  show ?case
  proof (cases "locks lm key")
    case None
    have "lm_inv (add_lock_owner key t (lm\<lparr>locks := (locks lm)(key \<mapsto> [(S, t)])\<rparr>))"
      using Cons.prems None
      by (intro lm_inv_grant) (auto simp: locks_ok_def owned_rids_def)
    then show ?thesis using None Cons.IH by simp
  next
    case (Some ls)
    then have ok: "locks_ok ls" using Cons.prems by (auto simp: lm_inv_def)
    show ?thesis
    proof (cases "shared_scan ls t")
      case AlreadyHasLock
      then show ?thesis using Some Cons by simp
    next
      case RejectShared
      then show ?thesis using Some Cons by simp
    next
      case GrantShared
      note g = shared_scan_Grant[OF GrantShared]
      have "lm_inv (add_lock_owner key t (lm\<lparr>locks := (locks lm)(key \<mapsto> ls @ [(S, t)])\<rparr>))"
        using Cons.prems Some g ok
        by (intro lm_inv_grant locks_ok_append_shared) (auto simp: owned_rids_def)
      then show ?thesis using Some GrantShared Cons.IH by simp
    qed
  qed
qed

lemma lm_inv_acquire_exclusive:
  "lm_inv lm \<Longrightarrow> lm_inv (snd (acquire_exclusive_lock keys t lm))"
proof (induction keys arbitrary: lm)
  case Nil
  then show ?case by simp
next
  case (Cons key keys)
  show ?case
  proof (cases "locks lm key")
    case None
    have "lm_inv (add_lock_owner key t (lm\<lparr>locks := (locks lm)(key \<mapsto> [(X, t)])\<rparr>))"
      using Cons.prems None
      by (intro lm_inv_grant) (auto simp: locks_ok_def owned_rids_def)
    then show ?thesis using None Cons.IH by simp
  next
    case (Some ls)
    then have ok: "locks_ok ls" using Cons.prems by (auto simp: lm_inv_def)
    note sc = exclusive_scan_locks_ok[OF ok, of t]
    show ?thesis
    proof (cases "list_all (\<lambda>l. snd l = t) ls")
      case True
      from ok have "ls \<noteq> []" by (simp add: locks_ok_def)
      with True have img: "snd ` set [(X, t)] = snd ` set ls"
        by (cases ls) (auto simp: list_all_iff)
      have "lm_inv (lm\<lparr>locks := (locks lm)(key \<mapsto> [(X, t)])\<rparr>)"
        using Cons.prems Some img by (intro lm_inv_replace) (auto simp: locks_ok_def)
      then show ?thesis using Some sc True Cons.IH by simp
    next
      case False
      have "lm\<lparr>locks := (locks lm)(key \<mapsto> ls)\<rparr> = lm"
        using Some by (simp add: map_upd_triv)
      then show ?thesis using Some sc False Cons.prems by simp
    qed
  qed
qed

lemma release_each_result:
  "distinct ks \<Longrightarrow> \<forall>k \<in> set ks. lk k \<noteq> None \<Longrightarrow>
   release_each ks t lk = Inr (\<lambda>k. if k \<in> set ks then drop_owner t (lk k) else lk k)"
proof (induction ks arbitrary: lk)
  case Nil
  then show ?case by simp
next
  case (Cons k ks)
  then obtain ls where ls: "lk k = Some ls" by auto
  show ?case
  proof (cases "remove_owned ls t = []")
    case True
    have "release_each ks t (lk(k := None)) =
            Inr (\<lambda>k'. if k' \<in> set ks then drop_owner t ((lk(k := None)) k') else (lk(k := None)) k')"
      using Cons.prems by (intro Cons.IH) auto
    then show ?thesis using ls True Cons.prems
      by (auto simp: drop_owner_def fun_eq_iff)
  next
    case False
    have "release_each ks t (lk(k \<mapsto> remove_owned ls t)) =
            Inr (\<lambda>k'. if k' \<in> set ks then drop_owner t ((lk(k \<mapsto> remove_owned ls t)) k')
                       else (lk(k \<mapsto> remove_owned ls t)) k')"
      using Cons.prems by (intro Cons.IH) auto
    then show ?thesis using ls False Cons.prems
      by (auto simp: drop_owner_def fun_eq_iff Let_def)
  qed
qed

lemma remove_owned_absent: "t \<notin> snd ` set ls \<Longrightarrow> remove_owned ls t = ls"
  by (induction ls) auto

lemma drop_owner_absent:
  "(case v of None \<Rightarrow> True | Some ls \<Rightarrow> ls \<noteq> [] \<and> t \<notin> snd ` set ls) \<Longrightarrow> drop_owner t v = v"
  by (auto simp: drop_owner_def remove_owned_absent split: option.splits)

lemma drop_owner_Some:
  "drop_owner t v = Some ls' \<longleftrightarrow>
     (\<exists>ls. v = Some ls \<and> ls' = remove_owned ls t \<and> ls' \<noteq> [])"
  by (auto simp: drop_owner_def split: option.splits)

lemma set_remove_owned: "set (remove_owned ls t) = {l \<in> set ls. snd l \<noteq> t}"
  by (induction ls) auto


lemma release_held_locks_result:
  assumes inv: "lm_inv lm"
  shows "release_held_locks t lm =
           Inr (lm\<lparr>locks := (\<lambda>k. drop_owner t (locks lm k)),
                    lock_owners := (lock_owners lm)(t := None)\<rparr>)"
proof (cases "lock_owners lm t")
  case None
  with inv have e: "owned_rids lm t = {}"
    by (auto simp: lm_inv_def split: option.splits dest: spec[of _ t])
  have "drop_owner t (locks lm k) = locks lm k" for k
  proof (rule drop_owner_absent)
    show "case locks lm k of None \<Rightarrow> True | Some ls \<Rightarrow> ls \<noteq> [] \<and> t \<notin> snd ` set ls"
      using e inv by (auto simp: owned_rids_def lm_inv_def locks_ok_def split: option.splits)
  qed
  then have "(\<lambda>k. drop_owner t (locks lm k)) = locks lm" by auto
  moreover have "(lock_owners lm)(t := None) = lock_owners lm"
    using None by auto
  ultimately show ?thesis using None by (simp add: release_held_locks_def)
next
  case (Some ks)
  with inv have d: "distinct ks" and s: "set ks = owned_rids lm t"
    by (auto simp: lm_inv_def split: option.splits dest: spec[of _ t])
  have pres: "\<forall>k \<in> set ks. locks lm k \<noteq> None"
    using s by (auto simp: owned_rids_def)
  have "(\<lambda>k. if k \<in> set ks then drop_owner t (locks lm k) else locks lm k) =
          (\<lambda>k. drop_owner t (locks lm k))"
  proof
    fix k
    show "(if k \<in> set ks then drop_owner t (locks lm k) else locks lm k) = drop_owner t (locks lm k)"
    proof (cases "k \<in> set ks")
      case True then show ?thesis by simp
    next
      case False
      have "drop_owner t (locks lm k) = locks lm k"
      proof (rule drop_owner_absent)
        show "case locks lm k of None \<Rightarrow> True | Some ls \<Rightarrow> ls \<noteq> [] \<and> t \<notin> snd ` set ls"
          using False s inv
          by (auto simp: owned_rids_def lm_inv_def locks_ok_def split: option.splits)
      qed
      with False show ?thesis by simp
    qed
  qed
  with release_each_result[OF d pres, of t] Some show ?thesis
    by (simp add: release_held_locks_def)
qed

lemma locks_ok_remove_owned:
  "locks_ok ls \<Longrightarrow> remove_owned ls t \<noteq> [] \<Longrightarrow> locks_ok (remove_owned ls t)"
  by (auto simp: locks_ok_def remove_owned_filter distinct_map_filter split: if_splits)

lemma owned_rids_after_release:
  "owned_rids (lm\<lparr>locks := (\<lambda>k. drop_owner t (locks lm k)), lock_owners := f\<rparr>) t' =
     (if t' = t then {} else owned_rids lm t')"
proof (cases "t' = t")
  case True
  then show ?thesis
    by (auto simp: owned_rids_def drop_owner_Some set_remove_owned)
next
  case False
  have "(\<exists>ls'. drop_owner t (locks lm k) = Some ls' \<and> t' \<in> snd ` set ls') \<longleftrightarrow>
        (\<exists>ls. locks lm k = Some ls \<and> t' \<in> snd ` set ls)" for k
  proof
    assume "\<exists>ls'. drop_owner t (locks lm k) = Some ls' \<and> t' \<in> snd ` set ls'"
    then show "\<exists>ls. locks lm k = Some ls \<and> t' \<in> snd ` set ls"
      by (force simp: drop_owner_Some set_remove_owned)
  next
    assume "\<exists>ls. locks lm k = Some ls \<and> t' \<in> snd ` set ls"
    then obtain ls l where ls: "locks lm k = Some ls" "l \<in> set ls" "snd l = t'" by auto
    with False have "l \<in> set (remove_owned ls t)" by (simp add: set_remove_owned)
    then have "remove_owned ls t \<noteq> []" "t' \<in> snd ` set (remove_owned ls t)"
      using ls(3) by auto
    with ls(1) show "\<exists>ls'. drop_owner t (locks lm k) = Some ls' \<and> t' \<in> snd ` set ls'"
      by (auto simp: drop_owner_Some)
  qed
  with False show ?thesis by (simp add: owned_rids_def)
qed

lemma lm_inv_release:
  assumes "lm_inv lm" "release_held_locks t lm = Inr lm'"
  shows "lm_inv lm'"
proof -
  from assms release_held_locks_result[OF assms(1), of t]
  have lm': "lm' = lm\<lparr>locks := (\<lambda>k. drop_owner t (locks lm k)),
                      lock_owners := (lock_owners lm)(t := None)\<rparr>" by simp
  have a: "locks_ok ls" if "locks lm' k = Some ls" for k ls
    using that assms(1) unfolding lm'
    by (auto simp: drop_owner_def lm_inv_def split: option.splits if_splits
             intro: locks_ok_remove_owned)
  have b: "case lock_owners lm' t' of None \<Rightarrow> owned_rids lm' t' = {}
           | Some ks \<Rightarrow> distinct ks \<and> set ks = owned_rids lm' t'" for t'
    using assms(1) unfolding lm' owned_rids_after_release
    by (auto simp: lm_inv_def split: option.splits dest: spec[of _ t'])
  from a b show ?thesis unfolding lm_inv_def by blast
qed

lemma lm_reachable_inv: "lm_reachable lm \<Longrightarrow> lm_inv lm"
  by (induction rule: lm_reachable.induct)
     (auto intro: lm_inv_init lm_inv_acquire_shared lm_inv_acquire_exclusive lm_inv_release)

lemma acquire_exclusive_lock_append:
  "acquire_exclusive_lock (xs @ ys) t lm =
     (case acquire_exclusive_lock xs t lm of
        (ok, lm1) \<Rightarrow> if ok then acquire_exclusive_lock ys t lm1 else (False, lm1))"
  by (induction xs arbitrary: lm) (auto split: option.splits prod.splits)

lemma acquire_exclusive_lock_single:
  assumes "lm_inv lm"
  shows "fst (acquire_exclusive_lock [key] t lm) = only_held_by lm t key"
    and "locks (snd (acquire_exclusive_lock [key] t lm)) =
           (if only_held_by lm t key then (locks lm)(key \<mapsto> [(X, t)]) else locks lm)"
    and "\<not> only_held_by lm t key \<Longrightarrow> snd (acquire_exclusive_lock [key] t lm) = lm"
proof -
  show "fst (acquire_exclusive_lock [key] t lm) = only_held_by lm t key"
  proof (cases "locks lm key")
    case None then show ?thesis by (simp add: only_held_by_def)
  next
    case (Some ls)
    then have "locks_ok ls" using assms by (auto simp: lm_inv_def)
    from exclusive_scan_locks_ok[OF this, of t] Some show ?thesis
      by (simp add: only_held_by_def)
  qed
  show "locks (snd (acquire_exclusive_lock [key] t lm)) =
           (if only_held_by lm t key then (locks lm)(key \<mapsto> [(X, t)]) else locks lm)"
  proof (cases "locks lm key")
    case None then show ?thesis by (simp add: only_held_by_def)
  next
    case (Some ls)
    then have "locks_ok ls" using assms by (auto simp: lm_inv_def)
    from exclusive_scan_locks_ok[OF this, of t] Some show ?thesis
      by (simp add: only_held_by_def map_upd_triv)
  qed
  show "snd (acquire_exclusive_lock [key] t lm) = lm" if "\<not> only_held_by lm t key"
  proof (cases "locks lm key")
    case None with that show ?thesis by (simp add: only_held_by_def)
  next
    case (Some ls)
    then have "locks_ok ls" using assms by (auto simp: lm_inv_def)
    from exclusive_scan_locks_ok[OF this, of t] Some that show ?thesis
      by (simp add: only_held_by_def map_upd_triv)
  qed
qed

lemma only_held_by_after_grant:
  "locks lm1 = (locks lm)(key \<mapsto> [(X, t)]) \<Longrightarrow> only_held_by lm t key \<Longrightarrow>
   only_held_by lm1 t k = only_held_by lm t k"
  by (simp add: only_held_by_def)

lemma acquire_exclusive_lock_cons:
  "acquire_exclusive_lock (key # keys) t lm =
     (case acquire_exclusive_lock [key] t lm of
        (ok, lm1) \<Rightarrow> if ok then acquire_exclusive_lock keys t lm1 else (False, lm1))"
  using acquire_exclusive_lock_append[of "[key]" keys t lm] by simp

lemma acquire_exclusive_lock_verdict:
  "lm_inv lm \<Longrightarrow>
   fst (acquire_exclusive_lock keys t lm) = (\<forall>k \<in> set keys. only_held_by lm t k)"
proof (induction keys arbitrary: lm)
  case Nil
  then show ?case by simp
next
  case (Cons key keys)
  obtain ok lm1 where r: "acquire_exclusive_lock [key] t lm = (ok, lm1)" by force
  note s = acquire_exclusive_lock_single[OF Cons.prems, where key=key and t=t]
  have inv1: "lm_inv lm1"
    using lm_inv_acquire_exclusive[OF Cons.prems, of "[key]" t] r by simp
  show ?case
  proof (cases "only_held_by lm t key")
    case True
    with s(1,2) r have ok: "ok" and l1: "locks lm1 = (locks lm)(key \<mapsto> [(X, t)])" by auto
    have "fst (acquire_exclusive_lock (key # keys) t lm) = fst (acquire_exclusive_lock keys t lm1)"
      unfolding acquire_exclusive_lock_cons[of key keys] r using ok by simp
    also have "\<dots> = (\<forall>k \<in> set keys. only_held_by lm1 t k)" by (rule Cons.IH[OF inv1])
    also have "\<dots> = (\<forall>k \<in> set keys. only_held_by lm t k)"
      using only_held_by_after_grant[OF l1 True] by simp
    finally show ?thesis using True by simp
  next
    case False
    with s(1) r have "\<not> ok" by simp
    then show ?thesis unfolding acquire_exclusive_lock_cons[of key keys] r using False by simp
  qed
qed

lemma acquire_exclusive_lock_granted_locks:
  "lm_inv lm \<Longrightarrow> fst (acquire_exclusive_lock keys t lm) \<Longrightarrow>
   locks (snd (acquire_exclusive_lock keys t lm)) =
     (\<lambda>k. if k \<in> set keys then Some [(X, t)] else locks lm k)"
proof (induction keys arbitrary: lm)
  case Nil
  then show ?case by simp
next
  case (Cons key keys)
  obtain ok lm1 where r: "acquire_exclusive_lock [key] t lm = (ok, lm1)" by force
  note s = acquire_exclusive_lock_single[OF Cons.prems(1), where key=key and t=t]
  have inv1: "lm_inv lm1"
    using lm_inv_acquire_exclusive[OF Cons.prems(1), of "[key]" t] r by simp
  from Cons.prems(2) have ok: ok and rest: "fst (acquire_exclusive_lock keys t lm1)"
    unfolding acquire_exclusive_lock_cons[of key keys] r by (auto split: if_splits)
  with s(1,2) r have l1: "locks lm1 = (locks lm)(key \<mapsto> [(X, t)])" by auto
  have "locks (snd (acquire_exclusive_lock (key # keys) t lm)) =
          locks (snd (acquire_exclusive_lock keys t lm1))"
    unfolding acquire_exclusive_lock_cons[of key keys] r using ok by simp
  also have "\<dots> = (\<lambda>k. if k \<in> set keys then Some [(X, t)] else locks lm1 k)"
    by (rule Cons.IH[OF inv1 rest])
  finally show ?case using l1 by (auto simp: fun_eq_iff)
qed

lemma acquire_exclusive_lock_fail_fast:
  assumes "lm_inv lm" "\<forall>k' \<in> set pre. only_held_by lm t k'" "\<not> only_held_by lm t k"
  shows "acquire_exclusive_lock (pre @ k # post) t lm =
           (False, snd (acquire_exclusive_lock pre t lm))"
proof -
  obtain ok lm1 where r: "acquire_exclusive_lock pre t lm = (ok, lm1)" by force
  have ok: ok using acquire_exclusive_lock_verdict[OF assms(1), of pre t] assms(2) r by simp
  have inv1: "lm_inv lm1" using lm_inv_acquire_exclusive[OF assms(1), of pre t] r by simp
  have l1: "locks lm1 = (\<lambda>k. if k \<in> set pre then Some [(X, t)] else locks lm k)"
    using acquire_exclusive_lock_granted_locks[OF assms(1), of pre t] r ok by simp
  have nk: "\<not> only_held_by lm1 t k"
  proof (cases "k \<in> set pre")
    case True with assms(2,3) show ?thesis by simp
  next
    case False with assms(3) l1 show ?thesis by (simp add: only_held_by_def)
  qed
  note s = acquire_exclusive_lock_single[OF inv1, where key=k and t=t]
  have "acquire_exclusive_lock [k] t lm1 = (False, lm1)"
    using s(1) s(3)[OF nk] nk by (simp add: prod_eq_iff)
  then have "acquire_exclusive_lock (k # post) t lm1 = (False, lm1)"
    unfolding acquire_exclusive_lock_cons[of k post] by simp
  then show ?thesis
    unfolding acquire_exclusive_lock_append[of pre "k # post"] r using ok by simp
qed

text \<open>
  Claim C8. On a lock table reached through the lock manager's own methods,
  \<open>acquire_exclusive_lock(rids, txn)\<close> grants exactly when every requested RID has no
  lock or only locks of this transaction; after a grant every requested RID carries the
  single entry \<open>("X", txn)\<close> (a fresh lock, or the upgrade of the transaction's sole
  shared lock); and the call returns \<open>False\<close> at the first requested RID on which
  another transaction holds a lock, shared or exclusive, keeping what it granted before.
\<close>

theorem acquire_exclusive_lock_grants_iff:
  assumes "lm_reachable lm"
  shows "(fst (acquire_exclusive_lock keys t lm) \<longleftrightarrow> (\<forall>k \<in> set keys. only_held_by lm t k)) \<and>
         (fst (acquire_exclusive_lock keys t lm) \<longrightarrow>
            (\<forall>k \<in> set keys. locks (snd (acquire_exclusive_lock keys t lm)) k = Some [(X, t)])) \<and>
         (\<forall>pre k post. keys = pre @ k # post \<and> (\<forall>k' \<in> set pre. only_held_by lm t k') \<and>
              \<not> only_held_by lm t k \<longrightarrow>
            acquire_exclusive_lock keys t lm = (False, snd (acquire_exclusive_lock pre t lm)))"
proof -
  have inv: "lm_inv lm" using assms by (rule lm_reachable_inv)
  show ?thesis
    using acquire_exclusive_lock_verdict[OF inv, of keys t]
      acquire_exclusive_lock_granted_locks[OF inv, of keys t]
      acquire_exclusive_lock_fail_fast[OF inv]
    by auto
qed

theorem acquire_exclusive_lock_grants_iff_witness:
  "lm_reachable lm_example \<and>
   fst (acquire_exclusive_lock [1, 3] 7 lm_example) \<and>
   locks (snd (acquire_exclusive_lock [1, 3] 7 lm_example)) 1 = Some [(X, 7)] \<and>
   locks (snd (acquire_exclusive_lock [1, 3] 7 lm_example)) 3 = Some [(X, 7)] \<and>
   \<not> fst (acquire_exclusive_lock [1, 2, 3] 7 lm_example) \<and>
   acquire_exclusive_lock [1, 2, 3] 7 lm_example =
     (False, snd (acquire_exclusive_lock [1] 7 lm_example))"
proof -
  have r: "lm_reachable lm_example"
    unfolding lm_example_def by (intro lm_reachable.intros)
  have h1: "only_held_by lm_example 7 1" and h3: "only_held_by lm_example 7 3"
    and h2: "\<not> only_held_by lm_example 7 2"
    by (simp_all add: lm_example_def only_held_by_def LockManager_init_def add_lock_owner_def)
  note simps_off = acquire_exclusive_lock.simps
  from acquire_exclusive_lock_grants_iff[OF r, of "[1, 3]" 7] h1 h3
  have a: "fst (acquire_exclusive_lock [1, 3] 7 lm_example)"
    and b: "\<forall>k \<in> set [1, 3]. locks (snd (acquire_exclusive_lock [1, 3] 7 lm_example)) k = Some [(X, 7)]"
    by (simp_all del: simps_off)
  note t = acquire_exclusive_lock_grants_iff[OF r, of "[1, 2, 3]" 7]
  from t h1 h2 have c: "\<not> fst (acquire_exclusive_lock [1, 2, 3] 7 lm_example)"
    by (simp del: simps_off)
  from t[THEN conjunct2, THEN conjunct2, rule_format, of "[1]" 2 "[3]"] h1 h2
  have d: "acquire_exclusive_lock [1, 2, 3] 7 lm_example =
             (False, snd (acquire_exclusive_lock [1] 7 lm_example))"
    by (simp del: simps_off)
  from r a b c d show ?thesis by (simp del: simps_off)
qed

section \<open>Proofs: physical pages\<close>

lemma bind_err_simps [simp]:
  "bind_err (Inl e) f = Inl e"
  "bind_err (Inr x) f = f x"
  by (simp_all add: bind_err_def)

lemma PhysicalPage_write_past_capacity:
  assumes "max_records cfg = Inr m" "m \<le> offset" "\<not> lock p"
  shows "PhysicalPage_write cfg v offset p = Inl RuntimeError"
  using assms by (simp add: PhysicalPage_write_def lock_release_def)

text \<open>
  Claim C9 (code defect). \<open>PhysicalPage.write(value, offset)\<close> with an offset at the
  page's capacity does not return \<open>False\<close>: on that path it calls
  \<open>self.lock.release()\<close> although it never acquired the lock, which raises
  \<open>RuntimeError\<close>. Evaluated on a fresh 4096-byte page of 8-byte columns, whose
  capacity is 509 values, at offset 509.
\<close>

theorem PhysicalPage_write_out_of_range_raises:
  "max_records cfg_4096 = Inr 509 \<and>
   PhysicalPage_write cfg_4096 0 509 (PhysicalPage_init cfg_4096) = Inl RuntimeError"
proof -
  have m: "max_records cfg_4096 = Inr 509"
    by (simp add: max_records_def cfg_4096_def PHYSICAL_PAGE_METADATA_SIZE_def)
  have l: "\<not> lock (PhysicalPage_init cfg_4096)"
    by (simp add: PhysicalPage_init_def)
  from PhysicalPage_write_past_capacity[OF m _ l, of 509 0] m show ?thesis by simp
qed

section \<open>Evaluating the model on concrete inputs\<close>

text \<open>
  The definitions of the model, and the rules the simplifier needs to run them on
  concrete inputs. The congruence rules keep it from rewriting the body of a
  continuation or of a loop before the value it is applied to is known.
\<close>

lemmas model_defs =
  LockManager_init_def add_lock_owner_def release_held_locks_def locks_ok_def owned_rids_def
  lm_inv_def only_held_by_def drop_owner_def lm_example_def MAX_BASE_PAGES_def
  NUM_METADATA_COLS_def DATA_COL_START_def INDIRECTION_COLUMN_def RID_COLUMN_def
  TIMESTAMP_COLUMN_def SCHEMA_ENCODING_COLUMN_def NUM_RECORDS_START_def NUM_RECORDS_END_def
  TPS_START_def TPS_END_def NUM_UPDATES_START_def NUM_UPDATES_END_def
  PHYSICAL_PAGE_METADATA_SIZE_def bind_err_def to_bytes_signed_def to_bytes_unsigned_def
  be_nat_def from_bytes_signed_def slice_index_def py_slice_def py_slice_assign_def
  lock_acquire_def lock_release_def py_index_def PhysicalPage_init_def max_records_def
  PhysicalPage_use_num_records_def PhysicalPage_get_dirty_bit_def
  PhysicalPage_use_pin_count_def PhysicalPage_get_tps_def PhysicalPage_get_num_updates_def
  PhysicalPage_get_data_def PhysicalPage_has_capacity_def PhysicalPage_write_def
  PhysicalPage_read_val_def PhysicalPage_change_val_def slot_val_def
  PhysicalPage_data_to_int_array_def cfg_4096_def cfg_tiny_def py_range_def py_range2_def
  Bufferpool_init_def Table_init_def Database_init_def heap_upd_def heap_alloc_def
  Record_new_def Table_use_num_records_def Table_use_num_transactions_def
  Table_use_num_page_ranges_def Table_use_page_directory_r_def Table_use_page_directory_w_def
  Table_use_page_directory_d_def unpack_location_def Table_add_to_merge_queue_def
  Bufferpool_has_capacity_def Bufferpool_create_phys_page_path_def path_file_def
  Bufferpool_fetch_phys_page_def Bufferpool_write_page_to_disk_path_def Bufferpool_evict_def
  Bufferpool_get_physical_page_helper_def Bufferpool_get_physical_page_def
  Bufferpool_get_physical_page_no_add_def Bufferpool_get_page_helper_def
  Bufferpool_get_page_def Bufferpool_get_page_no_add_def Bufferpool_get_tps_def
  Bufferpool_get_num_updates_def Bufferpool_set_tps_def Bufferpool_set_num_updates_def
  Bufferpool_get_record_column_val_def Bufferpool_get_record_def
  Bufferpool_get_highest_base_page_num_def Bufferpool_get_highest_tail_page_num_def
  Bufferpool_get_highest_page_range_num_def Bufferpool_page_has_capacity_def
  Bufferpool_page_range_has_capacity_def metadata_incr_def Bufferpool_create_page_range_def
  create_column_files_def Bufferpool_insert_base_page_def Bufferpool_insert_tail_page_def
  pin_one_def Bufferpool_pin_page_def Bufferpool_unpin_page_def Bufferpool_flush_def
  write_column_to_disk_def Bufferpool_write_page_to_disk_def db_one_page_def
  fetch_twice_example_def cfg_pool2_def all_pinned_example_def py_list_set_def
  page_col_write_def py_enumerate_def Page_write_def Page_get_rids_in_page_def copy_column_def
  Page_create_copy_def Index_is_indexed_def Index_get_all_base_rids_def Index_locate_def
  Index_locate_range_def Index_drop_index_def index_put_def Index_add_def
  Index_update_index_def delete_index_step_def Index_delete_index_def Record_to_array_def
  pin_add_def set_dirty_def incr_num_records_def page_change_val_def
  Table_get_record_version_def Table_get_latest_record_def Table_get_record_column_version_def
  Table_get_latest_column_val_def Table_delete_record_def Table_change_indirection_def
  Table_update_schema_encoding_def scan_rid_def scan_base_page_def scan_page_range_def
  Table_scan_def index_one_rid_def Index_index_base_page_data_def index_base_page_def
  index_page_range_def Index_create_index_def tail_index_step_def choose_tail_page_def
  reserve_offset_def bump_num_updates_def merge_check_def Query_insert_to_tail_page_def
  update_append_def Query_update_def project_record_def select_rid_def select_by_index_def
  Query_select_version_def Query_select_def sum_key_def Query_sum_version_def Query_sum_def
  Query_increment_def insert_index_step_def insert_choose_page_def insert_record_def
  Query_insert_def delete_prepare_def Query_delete_def Transaction_init_def
  Transaction_add_query_def with_lock_manager_def request_shared_def request_exclusive_def
  Transaction_acquire_lock_for_select_def Transaction_acquire_lock_for_sum_def
  Transaction_acquire_lock_for_insert_def Transaction_acquire_lock_for_update_def
  Transaction_acquire_lock_for_delete_def acquire_locks_for_def
  Transaction_acquire_all_locks_def release_locks_of_def Transaction_abort_def
  Transaction_commit_def wrap_bool_def wrap_records_def exec_query_def Transaction_run_def
  TransactionWorker_init_def TransactionWorker_add_transaction_def TransactionWorker_run_def
  merge_copy_column_def merge_tail_entry_def merge_finish_def Table_merge_helper_def
  Table_merge_def the_db_def returned_def db_one_record_def db_three_updates_def
  duplicate_insert_txn_def select_absent_txn_def cfg_index2_def db_three_records_def

lemma bind_err_weak_cong: "m = m' \<Longrightarrow> bind_err m f = bind_err m' f"
  by simp

lemma for_each_weak_cong:
  "xs = xs' \<Longrightarrow> s = s' \<Longrightarrow> for_each f xs s = for_each f xs' s'"
  by simp

lemma for_collect_weak_cong:
  "xs = xs' \<Longrightarrow> s = s' \<Longrightarrow> for_collect f xs s = for_collect f xs' s'"
  by simp

lemma fold_weak_cong: "xs = xs' \<Longrightarrow> s = s' \<Longrightarrow> fold f xs s = fold f xs' s'"
  by simp

lemma map_weak_cong: "xs = xs' \<Longrightarrow> map f xs = map f xs'"
  by simp

lemmas eval_congs =
  bind_err_weak_cong for_each_weak_cong for_collect_weak_cong fold_weak_cong map_weak_cong
  let_weak_cong

lemma replicate_numeral: "replicate (numeral k) x = x # replicate (pred_numeral k) x"
  by (simp add: numeral_eq_Suc)

lemma list_update_numeral: "(x # xs)[numeral k := y] = x # xs[pred_numeral k := y]"
  by (simp add: numeral_eq_Suc)

lemmas eval_simps =
  Let_def upto.simps replicate_numeral list_update_numeral delete_chain.simps
  worker_retry.simps

section \<open>Proofs: buffer pool\<close>

text \<open>A fetch of a path that is in the pool returns the pooled object and changes
  nothing but the path's lock entry: the LRU queue stays as it is.\<close>

lemma get_physical_page_hit:
  assumes "map_of (pages (bufferpool db)) (pr, pg, col) = Some a"
    and "page_locks (bufferpool db) (pr, pg, col) \<noteq> Some True"
  shows "Bufferpool_get_physical_page cfg pr pg col db =
           Inr (a, db\<lparr>bufferpool := (bufferpool db)
                      \<lparr>page_locks := (page_locks (bufferpool db))((pr, pg, col) \<mapsto> False)\<rparr>\<rparr>)"
  using assms
  by (simp add: Bufferpool_get_physical_page_def Bufferpool_get_physical_page_helper_def
      Bufferpool_create_phys_page_path_def Let_def)

text \<open>
  Claim C5 (code defect). \<open>get_physical_page\<close> returns a cached page without touching
  \<open>lru_pages\<close>: after columns 0 and 1 of a page were fetched, fetching column 0 again
  returns the same object, the page is in the pool, and the queue is still
  \<open>[col0, col1]\<close>, with the path just used at the front (the next victim) and not at
  the back.
\<close>

theorem get_physical_page_hit_keeps_queue:
  "map_sum id
     (\<lambda>(a, c, db). (a = c, map_of (pages (bufferpool db)) (0, 0, 0) = Some c,
                     lru_pages (bufferpool db),
                     last (lru_pages (bufferpool db)) = (0, 0, 0)))
     fetch_twice_example
   = Inr (True, True, [(0, 0, 0), (0, 0, 1)], False)"
  by code_simp

text \<open>
  Claim C6 (code defect). With the pool at capacity 2 and both resident pages pinned,
  \<open>__evict\<close> returns \<open>False\<close>; \<open>__get_physical_page_helper\<close> ignores the result and
  admits the fetched page, so the pool holds 3 pages, one more than \<open>max_capacity\<close>
  (and \<open>evict_lock\<close> stays held).
\<close>

theorem get_physical_page_all_pinned_exceeds_capacity:
  "map_sum id
     (\<lambda>(a, db). (map fst (pages (bufferpool db)), max_capacity (bufferpool db),
                  length (pages (bufferpool db)) \<le> max_capacity (bufferpool db),
                  evict_lock (bufferpool db)))
     all_pinned_example
   = Inr ([(0, 0, 0), (0, 0, 1), (0, 0, 2)], 2, False, True)"
  by code_simp

end
